theory Spec2Isabelle
  imports Main "HOL-Library.Word" "HOL-Library.AList" "HOL-Library.Char_ord"
    "HOL-Library.List_Lexorder"
begin

unbundle bit_operations_syntax

section \<open>Channel data model (tonpayments/db, pkg/payments)\<close>

text \<open>
  Amounts are Go \<open>*big.Int\<close> values and are modelled as \<open>int\<close>; \<open>tlb.Coins\<close> is
  represented by its nano value. Byte slices are lists of 8-bit words. The sequence number
  of a semi-channel is a \<open>uint64\<close>, so \<open>Seqno++\<close> is addition on \<open>64 word\<close>.

  A \<open>cell.Dictionary\<close> with 32-bit keys is an association list from \<open>32 word\<close> to value
  cells. The cell type \<open>'c\<close> is left open: cells, their hashes, signatures and the TL-B
  codecs belong to tonutils-go and pkg/payments, whose sources are not given here, and enter every function through the record \<open>world\<close> below.
\<close>

type_synonym bytes = "8 word list"

type_synonym 'c Dictionary = "(32 word \<times> 'c) list"

definition IsEmpty :: "'c Dictionary \<Rightarrow> bool" where
  "IsEmpty d = (d = [])"

definition LoadValue :: "'c Dictionary \<Rightarrow> 32 word \<Rightarrow> 'c option" where
  "LoadValue d k = map_of d k"

definition SetIntKey :: "32 word \<Rightarrow> 'c \<Rightarrow> 'c Dictionary \<Rightarrow> 'c Dictionary" where
  "SetIntKey k v d = AList.update k v d"

definition DeleteIntKey :: "32 word \<Rightarrow> 'c Dictionary \<Rightarrow> 'c Dictionary" where
  "DeleteIntKey k d = AList.delete k d"

record VirtualChannel =
  Key :: bytes
  Capacity :: int
  Fee :: int
  Prepay :: int
  Deadline :: int

record VirtualChannelState =
  Amount :: int
  StateSignature :: bytes

record SemiChannelBody =
  Seqno :: "64 word"
  Sent :: int
  ConditionalsHash :: bytes

record SemiChannel =
  ChannelID :: bytes
  Data :: SemiChannelBody
  CounterpartyData :: "SemiChannelBody option"

record SignedSemiChannel =
  Signature :: bytes
  State :: SemiChannel

text \<open>\<open>Side\<close> embeds \<open>payments.SignedSemiChannel\<close>, hence the record extension.\<close>

record 'c Side = SignedSemiChannel +
  Conditionals :: "'c Dictionary"
  PendingWithdraw :: int

record OnchainState =
  CommittedSeqno :: "64 word"
  Deposited :: int
  Withdrawn :: int
  OnchainSent :: int

text \<open>Of \<open>db.Channel\<close> the fields read or written by the functions below are kept.\<close>

record 'c Channel =
  Address :: string
  ExtraCurrencyID :: "32 word"
  JettonAddress :: string
  OurOnchain :: OnchainState
  TheirOnchain :: OnchainState
  Our :: "'c Side"
  Their :: "'c Side"

datatype find_result = Found "32 word" VirtualChannel | NotFound | FindFailed

text \<open>
  Everything that the functions below call but whose source is not given here: the service's coin configuration, clock and private key, the pkg/payments codecs
  and lookup, and the tonutils-go cell primitives. A function returning \<open>option\<close> fails
  with \<open>None\<close>.
\<close>

record 'c world =
  ResolveCoinConfig :: "string \<Rightarrow> 32 word \<Rightarrow> nat option"
  nowUnix :: int
  nodeKey :: bytes
  Serialize :: "VirtualChannel \<Rightarrow> 'c"
  ParseVirtualChannelCond :: "'c \<Rightarrow> VirtualChannel option"
  FindVirtualChannelWithProof :: "'c Dictionary \<Rightarrow> bytes \<Rightarrow> find_result"
  LoadVirtualChannelState :: "'c \<Rightarrow> VirtualChannelState option"
  StateToCell :: "VirtualChannelState \<Rightarrow> 'c option"
  Verify :: "VirtualChannelState \<Rightarrow> bytes \<Rightarrow> bool"
  Hash :: "'c \<Rightarrow> bytes"
  DictHash :: "'c Dictionary \<Rightarrow> bytes"
  SemiChannelToCell :: "SemiChannel \<Rightarrow> 'c option"
  SignedToCell :: "SignedSemiChannel \<Rightarrow> 'c option"
  Sign :: "'c \<Rightarrow> bytes \<Rightarrow> bytes"
  CreateProof :: "'c Dictionary \<Rightarrow> 'c option"
  coinsFit :: "int \<Rightarrow> bool"
  FromBOC :: "bytes \<Rightarrow> 'c option"
  ToBOC :: "'c \<Rightarrow> bytes"

datatype error =
    ErrResolveCoinConfig
  | ErrInvalidCapacity
  | ErrInvalidFee
  | ErrInvalidPrepay
  | ErrDeadlineExpired
  | ErrSameKeyPrefix
  | ErrParseCondition "32 word"
  | ErrCalcBalance error
  | ErrNotEnoughBalance
  | ErrPaymentsNotFound
  | ErrFindFailed
  | ErrPrepayLess
  | ErrStillExists
  | ErrLoadState
  | ErrIncorrectSignature
  | ErrVirtualExpired
  | ErrUnexpectedAction
  | ErrSerializeState
  | ErrSerializeSigned
  | ErrCreateProof
  | ErrFromBOC
  | ErrParseOldState
  | ErrStateToCell
  | ErrNewerStateIsKnown
  | Panic

section \<open>Channel.CalcBalance\<close>

text \<open>
  The loop over \<open>LoadAll\<close>: every condition lowers the balance and raises the locked
  amount by \<open>capacity + fee - prepay\<close>; a value that does not parse ends the call.
\<close>

fun calcLoop :: "('c \<Rightarrow> VirtualChannel option) \<Rightarrow> (32 word \<times> 'c) list \<Rightarrow> int \<Rightarrow> int
    \<Rightarrow> error + int \<times> int" where
  "calcLoop parse [] balance locked = Inr (balance, locked)"
| "calcLoop parse ((k, v) # all) balance locked =
     (case parse v of
        None \<Rightarrow> Inl (ErrParseCondition k)
      | Some vch \<Rightarrow>
          calcLoop parse all (balance - Capacity vch - Fee vch + Prepay vch)
            (locked + Capacity vch + Fee vch - Prepay vch))"

definition CalcBalance :: "'c world \<Rightarrow> 'c Channel \<Rightarrow> bool \<Rightarrow> error + int \<times> int" where
  "CalcBalance w ch isTheir =
     (let s1 = (if isTheir then Their ch else Our ch);
          s1chain = (if isTheir then TheirOnchain ch else OurOnchain ch);
          s2 = (if isTheir then Our ch else Their ch);
          maxWithdraw = (if Withdrawn s1chain < PendingWithdraw s1
                         then PendingWithdraw s1 else Withdrawn s1chain);
          balance = Sent (Data (State s2)) + (Deposited s1chain - maxWithdraw)
                      - Sent (Data (State s1));
          locked = (if PendingWithdraw s1 > 0
                    then PendingWithdraw s1 - Withdrawn s1chain else 0)
      in if IsEmpty (Conditionals s1) then Inr (balance, locked)
         else calcLoop (ParseVirtualChannelCond w) (Conditionals s1) balance locked)"

text \<open>The pair of section 3 of the specification, written from its words.\<close>

definition condCost :: "VirtualChannel \<Rightarrow> int" where
  "condCost c = Capacity c + Fee c - Prepay c"

definition specBalance :: "'c Side \<Rightarrow> OnchainState \<Rightarrow> 'c Side \<Rightarrow> VirtualChannel list \<Rightarrow> int" where
  "specBalance s schain s' conds =
     Sent (Data (State s')) + Deposited schain - max (Withdrawn schain) (PendingWithdraw s)
       - Sent (Data (State s)) - sum_list (map condCost conds)"

definition specLocked :: "'c Side \<Rightarrow> OnchainState \<Rightarrow> VirtualChannel list \<Rightarrow> int" where
  "specLocked s schain conds =
     max 0 (PendingWithdraw s - Withdrawn schain) + sum_list (map condCost conds)"

section \<open>Service.updateOurStateWithAction (tonpayments/state.go)\<close>

text \<open>
  \<open>transport.Action\<close> together with the \<open>details\<close> argument: \<open>OpenVirtualAction\<close>
  reads only \<open>details.(payments.VirtualChannel)\<close>, which the constructor carries.
  \<open>UnknownAction\<close> stands for any other dynamic type (the \<open>default\<close> branch).
\<close>

datatype 'c Action =
    IncrementStatesAction
  | OpenVirtualAction VirtualChannel
  | CommitVirtualAction bytes bytes
  | RemoveVirtualAction bytes
  | ConfirmCloseAction bytes 'c
  | UnknownAction

text \<open>\<open>binary.LittleEndian.Uint32\<close> panics on fewer than four bytes.\<close>

definition LittleEndian_Uint32 :: "bytes \<Rightarrow> 32 word option" where
  "LittleEndian_Uint32 b =
     (if length b < 4 then None
      else Some (ucast (b ! 0) OR push_bit 8 (ucast (b ! 1)) OR push_bit 16 (ucast (b ! 2))
                 OR push_bit 24 (ucast (b ! 3))))"

text \<open>\<open>new(big.Int).SetBytes\<close>: the bytes as a big-endian unsigned integer.\<close>

definition SetBytes :: "bytes \<Rightarrow> int" where
  "SetBytes b = foldl (\<lambda>a x. a * 256 + uint x) 0 b"

text \<open>\<open>tlb.MustFromNano\<close> panics when the amount does not fit the coins encoding.\<close>

definition MustFromNano :: "'c world \<Rightarrow> int \<Rightarrow> int option" where
  "MustFromNano w v = (if coinsFit w v then Some v else None)"

definition setOurConditionals :: "'c Dictionary \<Rightarrow> 'c Channel \<Rightarrow> 'c Channel" where
  "setOurConditionals d channel = channel\<lparr>Our := (Our channel)\<lparr>Conditionals := d\<rparr>\<rparr>"

definition setOurData :: "SemiChannelBody \<Rightarrow> 'c Channel \<Rightarrow> 'c Channel" where
  "setOurData body channel =
     channel\<lparr>Our := (Our channel)\<lparr>State := (State (Our channel))\<lparr>Data := body\<rparr>\<rparr>\<rparr>"

definition setOurSent :: "int \<Rightarrow> 'c Channel \<Rightarrow> 'c Channel" where
  "setOurSent v channel = setOurData ((Data (State (Our channel)))\<lparr>Sent := v\<rparr>) channel"

definition ourSent :: "'c Channel \<Rightarrow> int" where
  "ourSent channel = Sent (Data (State (Our channel)))"

text \<open>
  The channel is mutated in place, so every branch returns the channel as it stands when
  the function returns, also on an error. The second component is the error or the
  \<open>idempotency\<close> flag with which the \<open>switch\<close> statement is left.
\<close>

definition openVirtual :: "'c world \<Rightarrow> 'c Channel \<Rightarrow> VirtualChannel
    \<Rightarrow> 'c Channel \<times> (error + bool)" where
  "openVirtual w channel vch =
     (if Capacity vch \<le> 0 then (channel, Inl ErrInvalidCapacity)
      else if Fee vch < 0 then (channel, Inl ErrInvalidFee)
      else if Prepay vch < 0 then (channel, Inl ErrInvalidPrepay)
      else if Deadline vch < nowUnix w then (channel, Inl ErrDeadlineExpired)
      else
        let val = Serialize w vch in
        case LittleEndian_Uint32 (Key vch) of
          None \<Rightarrow> (channel, Inl Panic)
        | Some key \<Rightarrow>
            (case LoadValue (Conditionals (Our channel)) key of
               Some sl \<Rightarrow>
                 if Hash w sl = Hash w val then (channel, Inr True)
                 else (channel, Inl ErrSameKeyPrefix)
             | None \<Rightarrow>
                 let channel1 =
                       setOurConditionals (SetIntKey key val (Conditionals (Our channel))) channel
                 in (case CalcBalance w channel1 False of
                       Inl e \<Rightarrow> (channel1, Inl (ErrCalcBalance e))
                     | Inr (ourTargetBalance, locked) \<Rightarrow>
                         if ourTargetBalance < 0 then (channel1, Inl ErrNotEnoughBalance)
                         else (channel1, Inr False))))"

definition commitVirtual :: "'c world \<Rightarrow> 'c Channel \<Rightarrow> bytes \<Rightarrow> bytes
    \<Rightarrow> 'c Channel \<times> (error + bool)" where
  "commitVirtual w channel chKey prepayAmount =
     (case FindVirtualChannelWithProof w (Conditionals (Our channel)) chKey of
        NotFound \<Rightarrow> (channel, Inl ErrPaymentsNotFound)
      | FindFailed \<Rightarrow> (channel, Inl ErrFindFailed)
      | Found idx vch \<Rightarrow>
          let prepay = SetBytes prepayAmount;
              toSend = prepay - Prepay vch
          in if toSend < 0 then (channel, Inl ErrPrepayLess)
             else if toSend = 0 then (channel, Inr True)
             else
               (case LittleEndian_Uint32 (Key vch) of
                  None \<Rightarrow> (channel, Inl Panic)
                | Some key \<Rightarrow>
                    let channel1 =
                          setOurConditionals
                            (SetIntKey key (Serialize w (vch\<lparr>Prepay := prepay\<rparr>))
                               (Conditionals (Our channel))) channel
                    in (case MustFromNano w (ourSent channel1 + toSend) of
                          None \<Rightarrow> (channel1, Inl Panic)
                        | Some sent \<Rightarrow> (setOurSent sent channel1, Inr False))))"

text \<open>
  The part shared by \<open>RemoveVirtualAction\<close> and \<open>ConfirmCloseAction\<close>: delete the
  index returned by the lookup, then make sure the key prefix of the condition is gone.
\<close>

definition deleteCondition :: "'c Channel \<Rightarrow> 32 word \<Rightarrow> VirtualChannel
    \<Rightarrow> 'c Channel \<times> (error + unit)" where
  "deleteCondition channel idx vch =
     (let channel1 =
            setOurConditionals (DeleteIntKey idx (Conditionals (Our channel))) channel
      in case LittleEndian_Uint32 (Key vch) of
           None \<Rightarrow> (channel1, Inl Panic)
         | Some key \<Rightarrow>
             (case LoadValue (Conditionals (Our channel1)) key of
                Some sl \<Rightarrow> (channel1, Inl ErrStillExists)
              | None \<Rightarrow> (channel1, Inr ())))"

definition removeVirtual :: "'c world \<Rightarrow> 'c Channel \<Rightarrow> bytes
    \<Rightarrow> 'c Channel \<times> (error + bool)" where
  "removeVirtual w channel chKey =
     (case FindVirtualChannelWithProof w (Conditionals (Our channel)) chKey of
        NotFound \<Rightarrow> (channel, Inr True)
      | FindFailed \<Rightarrow> (channel, Inl ErrFindFailed)
      | Found idx vch \<Rightarrow>
          (case deleteCondition channel idx vch of
             (channel1, Inl e) \<Rightarrow> (channel1, Inl e)
           | (channel1, Inr u) \<Rightarrow> (channel1, Inr False)))"

definition confirmClose :: "'c world \<Rightarrow> 'c Channel \<Rightarrow> bytes \<Rightarrow> 'c
    \<Rightarrow> 'c Channel \<times> (error + bool)" where
  "confirmClose w channel chKey chState =
     (case LoadVirtualChannelState w chState of
        None \<Rightarrow> (channel, Inl ErrLoadState)
      | Some vState \<Rightarrow>
          if \<not> Verify w vState chKey then (channel, Inl ErrIncorrectSignature)
          else
            (case FindVirtualChannelWithProof w (Conditionals (Our channel)) chKey of
               NotFound \<Rightarrow> (channel, Inr True)
             | FindFailed \<Rightarrow> (channel, Inl ErrFindFailed)
             | Found idx vch \<Rightarrow>
                 if Deadline vch < nowUnix w then (channel, Inl ErrVirtualExpired)
                 else
                   (case deleteCondition channel idx vch of
                      (channel1, Inl e) \<Rightarrow> (channel1, Inl e)
                    | (channel1, Inr u) \<Rightarrow>
                        let toSend = Amount vState - Prepay vch + Fee vch
                        in if toSend > 0
                           then (case MustFromNano w (toSend + ourSent channel1) of
                                   None \<Rightarrow> (channel1, Inl Panic)
                                 | Some sent \<Rightarrow> (setOurSent sent channel1, Inr False))
                           else (channel1, Inr False))))"

fun switchAction :: "'c world \<Rightarrow> 'c Channel \<Rightarrow> 'c Action \<Rightarrow> 'c Channel \<times> (error + bool)" where
  "switchAction w channel IncrementStatesAction = (channel, Inr False)"
| "switchAction w channel (OpenVirtualAction vch) = openVirtual w channel vch"
| "switchAction w channel (CommitVirtualAction chKey prepayAmount) =
     commitVirtual w channel chKey prepayAmount"
| "switchAction w channel (RemoveVirtualAction chKey) = removeVirtual w channel chKey"
| "switchAction w channel (ConfirmCloseAction chKey chState) =
     confirmClose w channel chKey chState"
| "switchAction w channel UnknownAction = (channel, Inl ErrUnexpectedAction)"

text \<open>
  The statements after the \<open>switch\<close>: bump the sequence number, recompute the hash of
  the conditionals, sign, and serialise the signed state and the dictionary proof. The
  result is the signed state cell and the proof cell (absent for an empty dictionary).
\<close>

definition zeroHash :: bytes where
  "zeroHash = replicate 32 0"

definition signOurState :: "'c world \<Rightarrow> 'c Channel \<Rightarrow> 'c Channel \<times> (error + unit)" where
  "signOurState w channel =
     (let body = Data (State (Our channel));
          channel1 =
            setOurData
              (body\<lparr>Seqno := Seqno body + 1,
                    ConditionalsHash :=
                      (if IsEmpty (Conditionals (Our channel)) then zeroHash
                       else DictHash w (Conditionals (Our channel)))\<rparr>) channel
      in case SemiChannelToCell w (State (Our channel1)) of
           None \<Rightarrow> (channel1, Inl ErrSerializeState)
         | Some cl \<Rightarrow>
             (channel1\<lparr>Our := (Our channel1)\<lparr>Signature := Sign w cl (nodeKey w)\<rparr>\<rparr>, Inr ()))"

definition serializeResult :: "'c world \<Rightarrow> 'c Channel \<Rightarrow> error + 'c \<times> 'c option" where
  "serializeResult w channel =
     (case SignedToCell w (SignedSemiChannel.truncate (Our channel)) of
        None \<Rightarrow> Inl ErrSerializeSigned
      | Some res \<Rightarrow>
          if IsEmpty (Conditionals (Our channel)) then Inr (res, None)
          else (case CreateProof w (Conditionals (Our channel)) of
                  None \<Rightarrow> Inl ErrCreateProof
                | Some updateProof \<Rightarrow> Inr (res, Some updateProof)))"

definition updateOurStateWithAction :: "'c world \<Rightarrow> 'c Channel \<Rightarrow> 'c Action
    \<Rightarrow> 'c Channel \<times> (error + 'c \<times> 'c option)" where
  "updateOurStateWithAction w channel action =
     (case ResolveCoinConfig w (JettonAddress channel) (ExtraCurrencyID channel) of
        None \<Rightarrow> (channel, Inl ErrResolveCoinConfig)
      | Some cc \<Rightarrow>
          (case switchAction w channel action of
             (channel1, Inl e) \<Rightarrow> (channel1, Inl e)
           | (channel1, Inr idempotency) \<Rightarrow>
               if \<not> idempotency
               then (case signOurState w channel1 of
                       (channel2, Inl e) \<Rightarrow> (channel2, Inl e)
                     | (channel2, Inr u) \<Rightarrow> (channel2, serializeResult w channel2))
               else (channel1, serializeResult w channel1)))"

section \<open>VirtualChannelMeta: known resolves (tonpayments/db)\<close>

record VirtualChannelMeta =
  MetaKey :: bytes
  LastKnownResolve :: "bytes option"

definition GetKnownResolve :: "'c world \<Rightarrow> VirtualChannelMeta \<Rightarrow> VirtualChannelState option" where
  "GetKnownResolve w ch =
     (case LastKnownResolve ch of
        None \<Rightarrow> None
      | Some boc \<Rightarrow>
          (case FromBOC w boc of
             None \<Rightarrow> None
           | Some cll \<Rightarrow>
               (case LoadVirtualChannelState w cll of
                  None \<Rightarrow> None
                | Some st \<Rightarrow> if \<not> Verify w st (MetaKey ch) then None else Some st)))"

text \<open>
  \<open>AddKnownResolve\<close> assigns \<open>LastKnownResolve\<close> in place; the result is the returned
  error and the record as it stands afterwards.
\<close>

definition storeResolve :: "'c world \<Rightarrow> VirtualChannelMeta \<Rightarrow> VirtualChannelState
    \<Rightarrow> error option \<times> VirtualChannelMeta" where
  "storeResolve w ch state =
     (case StateToCell w state of
        None \<Rightarrow> (Some ErrStateToCell, ch)
      | Some cl \<Rightarrow> (None, ch\<lparr>LastKnownResolve := Some (ToBOC w cl)\<rparr>))"

definition AddKnownResolve :: "'c world \<Rightarrow> VirtualChannelMeta \<Rightarrow> VirtualChannelState
    \<Rightarrow> error option \<times> VirtualChannelMeta" where
  "AddKnownResolve w ch state =
     (if \<not> Verify w state (MetaKey ch) then (Some ErrIncorrectSignature, ch)
      else
        case LastKnownResolve ch of
          None \<Rightarrow> storeResolve w ch state
        | Some boc \<Rightarrow>
            (case FromBOC w boc of
               None \<Rightarrow> (Some ErrFromBOC, ch)
             | Some cl \<Rightarrow>
                 (case LoadVirtualChannelState w cl of
                    None \<Rightarrow> (Some ErrParseOldState, ch)
                  | Some oldState \<Rightarrow>
                      if Amount oldState > Amount state then (Some ErrNewerStateIsKnown, ch)
                      else storeResolve w ch state)))"

section \<open>The LevelDB store and its transactions (tonpayments/db/leveldb/db.go)\<close>

text \<open>
  Keys and values are byte strings; Go strings are byte strings as well. The engine is an
  ordered map, kept as an association list and iterated in bytewise key order. A write
  batch is the list of its operations in the order they were recorded. The engine can be
  closed (\<open>LevelDB.Close\<close>), after which taking a snapshot or writing a batch fails; disk
  faults are not modelled.
\<close>

type_synonym kv = "(bytes \<times> bytes) list"

datatype db_error =
    ErrAlreadyExists
  | ErrNotFound
  | ErrClosed
  | ErrJSON
  | ErrIndexKey
  | Wrapped string db_error

fun errorsIs :: "db_error \<Rightarrow> db_error \<Rightarrow> bool" where
  "errorsIs (Wrapped msg e) target = (Wrapped msg e = target \<or> errorsIs e target)"
| "errorsIs e target = (e = target)"

datatype batch_op = BatchPut bytes bytes | BatchDelete bytes

record LevelDB =
  store :: kv
  closed :: bool

record Tx =
  Snapshot :: kv
  batch :: "batch_op list"

fun applyOp :: "kv \<Rightarrow> batch_op \<Rightarrow> kv" where
  "applyOp m (BatchPut k v) = AList.update k v m"
| "applyOp m (BatchDelete k) = AList.delete k m"

definition Write :: "kv \<Rightarrow> batch_op list \<Rightarrow> kv" where
  "Write m b = foldl applyOp m b"

text \<open>
  The executor of a transaction: \<open>Put\<close> and \<open>Delete\<close> go to the batch, \<open>Get\<close>,
  \<open>Has\<close> and the iterator read the snapshot.
\<close>

definition Put :: "Tx \<Rightarrow> bytes \<Rightarrow> bytes \<Rightarrow> Tx" where
  "Put tx k v = tx\<lparr>batch := batch tx @ [BatchPut k v]\<rparr>"

definition Delete :: "Tx \<Rightarrow> bytes \<Rightarrow> Tx" where
  "Delete tx k = tx\<lparr>batch := batch tx @ [BatchDelete k]\<rparr>"

definition Get :: "Tx \<Rightarrow> bytes \<Rightarrow> db_error + bytes" where
  "Get tx k = (case map_of (Snapshot tx) k of None \<Rightarrow> Inl ErrNotFound | Some v \<Rightarrow> Inr v)"

definition Has :: "Tx \<Rightarrow> bytes \<Rightarrow> bool" where
  "Has tx k = (map_of (Snapshot tx) k \<noteq> None)"

definition NewIterator :: "Tx \<Rightarrow> bytes \<Rightarrow> (bytes \<times> bytes) list" where
  "NewIterator tx p = sort_key fst (filter (\<lambda>(k, v). take (length p) k = p) (Snapshot tx))"

text \<open>
  \<open>ctx\<close> is the transaction found under \<open>txKey\<close> in the context, if any. The callback
  \<open>f\<close> works on the transaction it is given; \<open>s\<close> is the state of the variables it
  captures. The result is the returned error, the captured state, the engine and the
  transaction of the context afterwards.
\<close>

definition Transaction :: "LevelDB \<Rightarrow> Tx option \<Rightarrow> 's
    \<Rightarrow> ('s \<Rightarrow> Tx \<Rightarrow> db_error option \<times> 's \<times> Tx)
    \<Rightarrow> db_error option \<times> 's \<times> LevelDB \<times> Tx option" where
  "Transaction d ctx s f =
     (case ctx of
        Some tx \<Rightarrow> (case f s tx of (err, s', tx') \<Rightarrow> (err, s', d, Some tx'))
      | None \<Rightarrow>
          if closed d then (Some (Wrapped ''failed to get db snapshot'' ErrClosed), s, d, None)
          else
            (case f s \<lparr>Snapshot = store d, batch = []\<rparr> of
               (Some err, s', tx') \<Rightarrow> (Some err, s', d, None)
             | (None, s', tx') \<Rightarrow>
                 if closed d
                 then (Some (Wrapped ''failed to write batch to db'' ErrClosed), s', d, None)
                 else (None, s', d\<lparr>store := Write (store d) (batch tx')\<rparr>, None)))"

section \<open>The task queue (tonpayments/db/task.go)\<close>

text \<open>Times are instants in nanoseconds since the Unix epoch.\<close>

record Task =
  ID :: bytes
  Type :: bytes
  Queue :: bytes
  TaskData :: bytes
  ExecuteAfter :: int
  ExecuteTill :: "int option"
  ReExecuteAfter :: "int option"
  CreatedAt :: int
  CompletedAt :: "int option"
  LockedTill :: "int option"
  LastError :: bytes

text \<open>\<open>encoding/json\<close>: the task codec and the encoder of a task's payload.\<close>

record 'd json =
  MarshalTask :: "Task \<Rightarrow> bytes option"
  UnmarshalTask :: "bytes \<Rightarrow> Task option"
  MarshalData :: "'d \<Rightarrow> bytes option"

definition tvPrefix :: bytes where
  "tvPrefix = [0x74, 0x76, 0x3A]"

definition tiPrefix :: bytes where
  "tiPrefix = [0x74, 0x69, 0x3A]"

definition colon :: bytes where
  "colon = [0x3A]"

definition BigEndian_PutUint64 :: "64 word \<Rightarrow> bytes" where
  "BigEndian_PutUint64 v = map (\<lambda>i. ucast (drop_bit (8 * i) v)) [7, 6, 5, 4, 3, 2, 1, 0]"


definition UnixNano :: "int \<Rightarrow> 64 word" where
  "UnixNano t = word_of_int t"

definition getTaskIndexKey :: "Task \<Rightarrow> bytes \<Rightarrow> bytes" where
  "getTaskIndexKey task poolName =
     (tiPrefix @ poolName @ colon) @ BigEndian_PutUint64 (UnixNano (ExecuteAfter task))
       @ Queue task"

definition isLocked :: "int \<Rightarrow> Task \<Rightarrow> bool" where
  "isLocked now task = (case LockedTill task of None \<Rightarrow> False | Some t \<Rightarrow> t > now)"

definition isWaiting :: "int \<Rightarrow> Task \<Rightarrow> bool" where
  "isWaiting now task = (case ReExecuteAfter task of None \<Rightarrow> False | Some t \<Rightarrow> t > now)"

definition isExpired :: "int \<Rightarrow> Task \<Rightarrow> bool" where
  "isExpired now task = (case ExecuteTill task of None \<Rightarrow> False | Some t \<Rightarrow> t < now)"




definition createTask :: "'d json \<Rightarrow> LevelDB \<Rightarrow> Tx option \<Rightarrow> Task \<Rightarrow> bytes
    \<Rightarrow> db_error option \<times> LevelDB \<times> Tx option" where
  "createTask j d ctx task poolName =
     (let key = tvPrefix @ ID task;
          keyOrderIndex = getTaskIndexKey task poolName
      in case Transaction d ctx ()
                (\<lambda>u tx.
                   if Has tx key then (Some ErrAlreadyExists, u, tx)
                   else
                     (case MarshalTask j task of
                        None \<Rightarrow> (Some (Wrapped ''failed to encode json'' ErrJSON), u, tx)
                      | Some data \<Rightarrow> (None, u, Put (Put tx key data) keyOrderIndex key))) of
           (err, u, d', ctx') \<Rightarrow> (err, d', ctx'))"

text \<open>
  \<open>CreateTask\<close> calls \<open>createTask\<close> with the context of its own transaction, so the
  inner call finds the transaction \<open>tx\<close> there. \<open>now\<close> is the clock.
\<close>

definition CreateTask :: "'d json \<Rightarrow> LevelDB \<Rightarrow> Tx option \<Rightarrow> int \<Rightarrow> bytes \<Rightarrow> bytes \<Rightarrow> bytes
    \<Rightarrow> bytes \<Rightarrow> 'd \<Rightarrow> int option \<Rightarrow> int option \<Rightarrow> db_error option \<times> LevelDB \<times> Tx option" where
  "CreateTask j d ctx now poolName typ queue id' data' executeAfter executeTill =
     (case MarshalData j data' of
        None \<Rightarrow> (Some ErrJSON, d, ctx)
      | Some bts \<Rightarrow>
          (case Transaction d ctx ()
                  (\<lambda>u tx.
                     let after = (case executeAfter of None \<Rightarrow> now | Some t \<Rightarrow> t)
                     in case createTask j d (Some tx)
                               \<lparr>ID = id', Type = typ, Queue = queue, TaskData = bts,
                                ExecuteAfter = after, ExecuteTill = executeTill,
                                ReExecuteAfter = None, CreatedAt = now, CompletedAt = None,
                                LockedTill = None, LastError = []\<rparr> poolName of
                          (err, d', ctx') \<Rightarrow>
                            let tx' = (case ctx' of None \<Rightarrow> tx | Some t \<Rightarrow> t)
                            in (case err of
                                  None \<Rightarrow> (None, u, tx')
                                | Some e \<Rightarrow>
                                    if errorsIs e ErrAlreadyExists then (None, u, tx')
                                    else (Some (Wrapped ''failed to create task'' e), u, tx'))) of
             (err, u, d', ctx') \<Rightarrow> (err, d', ctx')))"

text \<open>
  \<open>RetryTask\<close> changes the task it is given in place; the task afterwards is the second
  component of the result.
\<close>

definition RetryTask :: "'d json \<Rightarrow> LevelDB \<Rightarrow> Tx option \<Rightarrow> Task \<Rightarrow> bytes \<Rightarrow> int
    \<Rightarrow> db_error option \<times> Task \<times> LevelDB \<times> Tx option" where
  "RetryTask j d ctx task reason retryAt =
     (if CompletedAt task \<noteq> None \<or> LockedTill task = None then (None, task, d, ctx)
      else
        let task1 = task\<lparr>LockedTill := None, LastError := reason,
                          ReExecuteAfter := Some retryAt\<rparr>;
            key = tvPrefix @ ID task1
        in case Transaction d ctx ()
                  (\<lambda>u tx.
                     if \<not> Has tx key then (Some ErrNotFound, u, tx)
                     else
                       (case MarshalTask j task1 of
                          None \<Rightarrow> (Some (Wrapped ''failed to encode json'' ErrJSON), u, tx)
                        | Some data \<Rightarrow> (None, u, Put tx key data))) of
             (err, u, d', ctx') \<Rightarrow> (err, task1, d', ctx'))"

section \<open>The quantities of the specification\<close>

text \<open>
  The change of \<open>our.sent\<close> that step 4 of section 4.D of the specification prescribes:
  \<open>max(0, resolve.amount - prepay + fee)\<close> for \<open>ConfirmClose\<close>,
  \<open>new_prepay - old_prepay\<close> for \<open>CommitVirtual\<close>, else 0. The condition is the
  one the lookup returns for the key of the action.
\<close>

definition deltaSent :: "'c world \<Rightarrow> 'c Channel \<Rightarrow> 'c Action \<Rightarrow> int" where
  "deltaSent w channel action =
     (case action of
        ConfirmCloseAction key st \<Rightarrow>
          (case (LoadVirtualChannelState w st,
                 FindVirtualChannelWithProof w (Conditionals (Our channel)) key) of
             (Some resolve, Found idx cond) \<Rightarrow> max 0 (Amount resolve - Prepay cond + Fee cond)
           | _ \<Rightarrow> 0)
      | CommitVirtualAction key newPrepay \<Rightarrow>
          (case FindVirtualChannelWithProof w (Conditionals (Our channel)) key of
             Found idx cond \<Rightarrow> SetBytes newPrepay - Prepay cond
           | _ \<Rightarrow> 0)
      | _ \<Rightarrow> 0)"

definition succeeded :: "'s \<times> ('e + 'r) \<Rightarrow> bool" where
  "succeeded r = (case snd r of Inl e \<Rightarrow> False | Inr v \<Rightarrow> True)"

text \<open>
  The actions that the function treats as already applied, with the checks that precede
  the test in the code: an \<open>OpenVirtualAction\<close> that passes the parameter checks and
  whose key prefix holds a value with the hash of the new condition, a
  \<open>CommitVirtualAction\<close> whose prepay equals the stored one, a \<open>RemoveVirtualAction\<close>
  whose key is not found, and a \<open>ConfirmCloseAction\<close> whose state loads and verifies and
  whose key is not found.
\<close>

definition idempotentCase :: "'c world \<Rightarrow> 'c Channel \<Rightarrow> 'c Action \<Rightarrow> bool" where
  "idempotentCase w channel action =
     (case action of
        OpenVirtualAction vch \<Rightarrow>
          0 < Capacity vch \<and> 0 \<le> Fee vch \<and> 0 \<le> Prepay vch \<and> nowUnix w \<le> Deadline vch
          \<and> (case LittleEndian_Uint32 (Key vch) of
                None \<Rightarrow> False
              | Some key \<Rightarrow>
                  (case LoadValue (Conditionals (Our channel)) key of
                     None \<Rightarrow> False
                   | Some sl \<Rightarrow> Hash w sl = Hash w (Serialize w vch)))
      | CommitVirtualAction key newPrepay \<Rightarrow>
          (case FindVirtualChannelWithProof w (Conditionals (Our channel)) key of
             Found idx cond \<Rightarrow> SetBytes newPrepay = Prepay cond
           | _ \<Rightarrow> False)
      | RemoveVirtualAction key \<Rightarrow>
          FindVirtualChannelWithProof w (Conditionals (Our channel)) key = NotFound
      | ConfirmCloseAction key st \<Rightarrow>
          (case LoadVirtualChannelState w st of
             None \<Rightarrow> False
           | Some resolve \<Rightarrow> Verify w resolve key)
          \<and> FindVirtualChannelWithProof w (Conditionals (Our channel)) key = NotFound
      | _ \<Rightarrow> False)"

definition coinConfigResolves :: "'c world \<Rightarrow> 'c Channel \<Rightarrow> bool" where
  "coinConfigResolves w channel =
     (ResolveCoinConfig w (JettonAddress channel) (ExtraCurrencyID channel) \<noteq> None)"

text \<open>
  The rejection conditions of \<open>OpenVirtualAction\<close>, in the order of the code, and the
  errors that report them. The balance is the one after the insertion and is only
  computed when the key prefix is free.
\<close>

definition validationErrors :: "error set" where
  "validationErrors =
     {ErrInvalidCapacity, ErrInvalidFee, ErrInvalidPrepay, ErrDeadlineExpired,
      ErrSameKeyPrefix, ErrNotEnoughBalance}"

definition openRejected :: "'c world \<Rightarrow> 'c Channel \<Rightarrow> VirtualChannel \<Rightarrow> bool" where
  "openRejected w channel vch =
     (Capacity vch \<le> 0 \<or> Fee vch < 0 \<or> Prepay vch < 0 \<or> Deadline vch < nowUnix w
      \<or> (case LittleEndian_Uint32 (Key vch) of
            None \<Rightarrow> False
          | Some key \<Rightarrow>
              (case LoadValue (Conditionals (Our channel)) key of
                 Some sl \<Rightarrow> Hash w sl \<noteq> Hash w (Serialize w vch)
               | None \<Rightarrow>
                   (case CalcBalance w
                           (setOurConditionals
                              (SetIntKey key (Serialize w vch) (Conditionals (Our channel)))
                              channel) False of
                      Inl e \<Rightarrow> False
                    | Inr (balance, locked) \<Rightarrow> balance < 0))))"

definition serialisationTotal :: "'c world \<Rightarrow> bool" where
  "serialisationTotal w =
     ((\<forall>st. SemiChannelToCell w st \<noteq> None) \<and> (\<forall>st. SignedToCell w st \<noteq> None)
      \<and> (\<forall>d. CreateProof w d \<noteq> None))"

definition conditionsParse :: "'c world \<Rightarrow> 'c Dictionary \<Rightarrow> bool" where
  "conditionsParse w d = (\<forall>(k, v) \<in> set d. ParseVirtualChannelCond w v \<noteq> None)"

text \<open>The transaction that \<open>Transaction\<close> starts on the engine \<open>d\<close>.\<close>

definition freshTx :: "LevelDB \<Rightarrow> Tx" where
  "freshTx d = \<lparr>Snapshot = store d, batch = []\<rparr>"

text \<open>
  The task after \<open>retry(task, reason, at)\<close> (section 4.C, item 5): the lock cleared, the
  last error and the time of the next execution set.
\<close>

definition retried :: "Task \<Rightarrow> bytes \<Rightarrow> int \<Rightarrow> Task" where
  "retried task reason retryAt =
     task\<lparr>LockedTill := None, LastError := reason, ReExecuteAfter := Some retryAt\<rparr>"


definition indexQueue :: "nat \<Rightarrow> bytes \<Rightarrow> bytes" where
  "indexQueue n key = drop (n + 8) key"


definition bodyOf :: "'d json \<Rightarrow> kv \<Rightarrow> bytes \<Rightarrow> Task option" where
  "bodyOf j snap dataKey =
     (case map_of snap dataKey of None \<Rightarrow> None | Some data \<Rightarrow> UnmarshalTask j data)"


definition blocking :: "int \<Rightarrow> Task \<Rightarrow> bool" where
  "blocking now task = (CompletedAt task = None \<and> (isLocked now task \<or> isWaiting now task))"

definition droppable :: "int \<Rightarrow> Task \<Rightarrow> bool" where
  "droppable now task =
     (CompletedAt task = None \<and> \<not> isLocked now task \<and> \<not> isWaiting now task
      \<and> isExpired now task)"



text \<open>
  \<open>expiredReached\<close>: the index keys of \<open>pre\<close> whose task is droppable and whose queue
  is neither on the initial skip list nor blocked by an earlier entry.
  \<open>expiredOnly\<close>: the deleted keys are index keys of \<open>pre\<close> with a droppable task.
\<close>

definition unblockedAt :: "'d json \<Rightarrow> int \<Rightarrow> kv \<Rightarrow> (bytes \<times> bytes) list \<Rightarrow> bytes \<Rightarrow> bool" where
  "unblockedAt j now snap before q =
     (\<forall>(k, dk) \<in> set before.
        case bodyOf j snap dk of None \<Rightarrow> True | Some t' \<Rightarrow> blocking now t' \<longrightarrow> Queue t' \<noteq> q)"

definition expiredReached :: "'d json \<Rightarrow> int \<Rightarrow> nat \<Rightarrow> kv \<Rightarrow> bytes list \<Rightarrow> (bytes \<times> bytes) list
    \<Rightarrow> bytes set" where
  "expiredReached j now n snap sk pre =
     {k'. \<exists>q1 dk' q2 t'. pre = q1 @ (k', dk') # q2 \<and> indexQueue n k' \<notin> set sk
            \<and> bodyOf j snap dk' = Some t' \<and> droppable now t'
            \<and> unblockedAt j now snap q1 (indexQueue n k')}"





section \<open>A concrete instance of the collaborators\<close>

text \<open>
  Symbolic cells: a cell is the value it serialises, so every codec round-trips. They
  serve to run the functions above on explicit inputs.
\<close>

datatype cell =
    CondCell VirtualChannel
  | ResolveCell VirtualChannelState
  | SemiCell SemiChannel
  | SignedCell SignedSemiChannel
  | ProofCell "32 word list"
  | RawCell bytes

text \<open>
  Modelled from the spec: \<open>payments.FindVirtualChannelWithProof\<close>, whose source is
  missing. The conditionals dictionary maps a 32-bit key to a serialised condition and a
  condition carries its 32-byte key; the lookup goes through the little-endian prefix of
  the key, as \<open>OpenVirtualAction\<close> stores it, and answers only for the full key.
\<close>

definition findByPrefix :: "('c \<Rightarrow> VirtualChannel option) \<Rightarrow> 'c Dictionary \<Rightarrow> bytes
    \<Rightarrow> find_result" where
  "findByPrefix parse d key =
     (case LittleEndian_Uint32 key of
        None \<Rightarrow> FindFailed
      | Some idx \<Rightarrow>
          (case LoadValue d idx of
             None \<Rightarrow> NotFound
           | Some sl \<Rightarrow>
               (case parse sl of
                  None \<Rightarrow> FindFailed
                | Some vch \<Rightarrow> if Key vch = key then Found idx vch else NotFound)))"


definition exampleParse :: "cell \<Rightarrow> VirtualChannel option" where
  "exampleParse c = (case c of CondCell v \<Rightarrow> Some v | _ \<Rightarrow> None)"

definition exampleHash :: "cell \<Rightarrow> bytes" where
  "exampleHash c =
     (case c of
        CondCell v \<Rightarrow>
          Key v @ [word_of_int (Capacity v), word_of_int (Fee v), word_of_int (Prepay v),
                   word_of_int (Deadline v)]
      | RawCell b \<Rightarrow> b
      | _ \<Rightarrow> [])"

definition exampleFromBOC :: "bytes \<Rightarrow> cell option" where
  "exampleFromBOC b =
     (case b of
        [] \<Rightarrow> None
      | a # sig \<Rightarrow> Some (ResolveCell \<lparr>Amount = uint a, StateSignature = sig\<rparr>))"

definition exampleToBOC :: "cell \<Rightarrow> bytes" where
  "exampleToBOC c =
     (case c of ResolveCell st \<Rightarrow> word_of_int (Amount st) # StateSignature st | _ \<Rightarrow> [])"

text \<open>
  Modelled from the spec: the missing collaborators, in their simplest form. The clock
  stands at 1000; a resolve verifies when its signature field repeats the key (section 3:
  the signature is verified against the 32-byte key stored in the condition).
\<close>

definition exampleWorld :: "cell world" where
  "exampleWorld =
     \<lparr>ResolveCoinConfig = (\<lambda>jetton ec. Some 9),
      nowUnix = 1000,
      nodeKey = [7],
      Serialize = CondCell,
      ParseVirtualChannelCond = exampleParse,
      FindVirtualChannelWithProof = findByPrefix exampleParse,
      LoadVirtualChannelState = (\<lambda>c. case c of ResolveCell st \<Rightarrow> Some st | _ \<Rightarrow> None),
      StateToCell = (\<lambda>st. Some (ResolveCell st)),
      Verify = (\<lambda>st key. StateSignature st = key),
      Hash = exampleHash,
      DictHash = (\<lambda>d. concat (map (\<lambda>(k, c). exampleHash c) d)),
      SemiChannelToCell = (\<lambda>st. Some (SemiCell st)),
      SignedToCell = (\<lambda>st. Some (SignedCell st)),
      Sign = (\<lambda>c key. key @ exampleHash c),
      CreateProof = (\<lambda>d. Some (ProofCell (map fst d))),
      coinsFit = (\<lambda>v. 0 \<le> v \<and> v < 2 ^ 120),
      FromBOC = exampleFromBOC,
      ToBOC = exampleToBOC\<rparr>"

definition exampleSide :: "int \<Rightarrow> cell Dictionary \<Rightarrow> int \<Rightarrow> cell Side" where
  "exampleSide sent conds pending =
     \<lparr>Signature = replicate 64 0,
      State = \<lparr>ChannelID = [1],
               Data = \<lparr>Seqno = 7, Sent = sent, ConditionalsHash = zeroHash\<rparr>,
               CounterpartyData = None\<rparr>,
      Conditionals = conds, PendingWithdraw = pending\<rparr>"

definition exampleOnchain :: "int \<Rightarrow> int \<Rightarrow> OnchainState" where
  "exampleOnchain deposited withdrawn =
     \<lparr>CommittedSeqno = 0, Deposited = deposited, Withdrawn = withdrawn, OnchainSent = 0\<rparr>"

text \<open>
  A channel with 100 deposited on either side, 5 sent by us, and the given conditionals,
  pending withdrawal and on-chain withdrawn amount on our side.
\<close>

definition exampleChannel :: "cell Dictionary \<Rightarrow> int \<Rightarrow> int \<Rightarrow> cell Channel" where
  "exampleChannel conds pending withdrawn =
     \<lparr>Address = ''EQ'', ExtraCurrencyID = 0, JettonAddress = [],
      OurOnchain = exampleOnchain 100 withdrawn, TheirOnchain = exampleOnchain 100 0,
      Our = exampleSide 5 conds pending, Their = exampleSide 0 [] 0\<rparr>"

definition exampleKey :: bytes where
  "exampleKey = [1, 0, 0, 0, 9]"

definition exampleCond :: "int \<Rightarrow> VirtualChannel" where
  "exampleCond deadline =
     \<lparr>Key = exampleKey, Capacity = 50, Fee = 1, Prepay = 0, Deadline = deadline\<rparr>"

definition openChannel :: "int \<Rightarrow> cell Channel" where
  "openChannel deadline = exampleChannel [(1, CondCell (exampleCond deadline))] 0 0"

definition closeAction :: "cell Action" where
  "closeAction =
     ConfirmCloseAction exampleKey (ResolveCell \<lparr>Amount = 30, StateSignature = exampleKey\<rparr>)"

definition badSigAction :: "cell Action" where
  "badSigAction =
     ConfirmCloseAction exampleKey (ResolveCell \<lparr>Amount = 30, StateSignature = [0]\<rparr>)"

definition exampleMeta :: "bytes option \<Rightarrow> VirtualChannelMeta" where
  "exampleMeta stored = \<lparr>MetaKey = exampleKey, LastKnownResolve = stored\<rparr>"

definition exampleResolve :: "int \<Rightarrow> VirtualChannelState" where
  "exampleResolve amount = \<lparr>Amount = amount, StateSignature = exampleKey\<rparr>"




text \<open>
  Modelled from the spec: \<open>encoding/json\<close> on the tasks and payloads of the examples.
  The task codec is a table of the task bodies that occur; a payload either encodes to
  bytes or is a value that \<open>json.Marshal\<close> refuses (a channel, a function, a NaN).
\<close>

datatype payload = JSONValue bytes | Unsupported

definition exampleTask :: "int option \<Rightarrow> int option \<Rightarrow> int option \<Rightarrow> int option \<Rightarrow> Task" where
  "exampleTask till retry completed locked =
     \<lparr>ID = [1], Type = [2], Queue = [3], TaskData = [], ExecuteAfter = 100,
      ExecuteTill = till, ReExecuteAfter = retry, CreatedAt = 50, CompletedAt = completed,
      LockedTill = locked, LastError = []\<rparr>"

definition exampleTasks :: "(bytes \<times> Task) list" where
  "exampleTasks =
     [([10], exampleTask None None None None),
      ([11], exampleTask None None None (Some 900)),
      ([12], (exampleTask None (Some 2000) None None)\<lparr>LastError := [5]\<rparr>),
      ([13], exampleTask None None None (Some 300000001001)),
      ([14], (exampleTask (Some 500) None None None)\<lparr>ID := [2], Queue := [4],
               ExecuteAfter := 50\<rparr>),
      ([15], exampleTask (Some 500) (Some 2000) None None)]"

definition exampleJSON :: "payload json" where
  "exampleJSON =
     \<lparr>MarshalTask = (\<lambda>t. map_of (map (\<lambda>(b, t). (t, b)) exampleTasks) t),
      UnmarshalTask = map_of exampleTasks,
      MarshalData = (\<lambda>p. case p of JSONValue b \<Rightarrow> Some b | Unsupported \<Rightarrow> None)\<rparr>"

definition exampleDB :: "kv \<Rightarrow> LevelDB" where
  "exampleDB m = \<lparr>store = m, closed = False\<rparr>"

definition putOne :: "unit \<Rightarrow> Tx \<Rightarrow> db_error option \<times> unit \<times> Tx" where
  "putOne u tx = (None, u, Put tx [1] [2])"

definition putThenFail :: "unit \<Rightarrow> Tx \<Rightarrow> db_error option \<times> unit \<times> Tx" where
  "putThenFail u tx = (Some ErrNotFound, u, Put tx [1] [2])"

definition storedTaskDB :: LevelDB where
  "storedTaskDB =
     exampleDB [(tvPrefix @ [1], [11]),
                (getTaskIndexKey (exampleTask None None None None) [7], tvPrefix @ [1])]"

definition lockedTask :: Task where
  "lockedTask = exampleTask None None None (Some 900)"

definition retriedDB :: LevelDB where
  "retriedDB =
     exampleDB [(tvPrefix @ [1], [12]),
                (getTaskIndexKey (exampleTask None None None None) [7], tvPrefix @ [1])]"

definition commitAction :: "cell Action" where
  "commitAction = CommitVirtualAction exampleKey [20]"





section \<open>Properties\<close>

lemmas example_defs =
  exampleWorld_def exampleChannel_def exampleSide_def exampleOnchain_def exampleCond_def
  exampleKey_def exampleParse_def exampleHash_def findByPrefix_def openChannel_def
  closeAction_def badSigAction_def

lemmas model_defs =
  updateOurStateWithAction_def openVirtual_def commitVirtual_def removeVirtual_def
  confirmClose_def deleteCondition_def signOurState_def serializeResult_def
  CalcBalance_def LittleEndian_Uint32_def LoadValue_def SetIntKey_def DeleteIntKey_def
  IsEmpty_def setOurConditionals_def setOurData_def setOurSent_def ourSent_def
  MustFromNano_def zeroHash_def SetBytes_def

subsection \<open>CalcBalance\<close>

text \<open>
  C2. \<open>CalcBalance\<close> against the pair of the specification, on our side of a channel
  without conditionals whose pending withdrawal (5) is positive and below the amount
  already withdrawn on chain (10): the balance is the specified 85, the locked amount is
  \<open>5 - 10 = -5\<close>, where the specification gives \<open>max(0, 5 - 10) = 0\<close>.
\<close>

theorem CalcBalance_locked_below_withdrawn:
  "CalcBalance exampleWorld (exampleChannel [] 5 10) False = Inr (85, - 5)
   \<and> specBalance (Our (exampleChannel [] 5 10)) (OurOnchain (exampleChannel [] 5 10))
        (Their (exampleChannel [] 5 10)) [] = 85
   \<and> specLocked (Our (exampleChannel [] 5 10)) (OurOnchain (exampleChannel [] 5 10)) [] = 0"
  by (simp add: CalcBalance_def exampleChannel_def exampleSide_def exampleOnchain_def
      specLocked_def specBalance_def IsEmpty_def)

subsection \<open>updateOurStateWithAction: the state after a non-idempotent action\<close>

lemma setOur_simps [simp]:
  "Conditionals (Our (setOurConditionals d ch)) = d"
  "State (Our (setOurConditionals d ch)) = State (Our ch)"
  "Signature (Our (setOurConditionals d ch)) = Signature (Our ch)"
  "ourSent (setOurConditionals d ch) = ourSent ch"
  "Conditionals (Our (setOurSent v ch)) = Conditionals (Our ch)"
  "ourSent (setOurSent v ch) = v"
  "Seqno (Data (State (Our (setOurSent v ch)))) = Seqno (Data (State (Our ch)))"
  by (simp_all add: setOurConditionals_def setOurSent_def setOurData_def ourSent_def)

lemma deleteCondition_keeps:
  "deleteCondition ch idx vch = (ch1, r) \<Longrightarrow>
     State (Our ch1) = State (Our ch) \<and> ourSent ch1 = ourSent ch"
  by (auto simp: deleteCondition_def Let_def split: option.splits)

lemma switchAction_effect:
  assumes "switchAction w ch a = (ch1, Inr False)"
  shows "Seqno (Data (State (Our ch1))) = Seqno (Data (State (Our ch)))
       \<and> ourSent ch1 = ourSent ch + deltaSent w ch a"
proof (cases a)
  case IncrementStatesAction
  with assms show ?thesis by (simp add: deltaSent_def)
next
  case (OpenVirtualAction vch)
  with assms show ?thesis
    by (auto simp: deltaSent_def openVirtual_def Let_def
        split: if_splits option.splits sum.splits prod.splits)
next
  case (CommitVirtualAction k p)
  with assms show ?thesis
    by (auto simp: deltaSent_def commitVirtual_def Let_def MustFromNano_def
        split: if_splits option.splits find_result.splits)
next
  case (RemoveVirtualAction k)
  with assms show ?thesis
    by (auto simp: deltaSent_def removeVirtual_def Let_def
        split: if_splits option.splits find_result.splits sum.splits prod.splits
        dest: deleteCondition_keeps)
next
  case (ConfirmCloseAction k st)
  with assms show ?thesis
    by (auto simp: deltaSent_def confirmClose_def Let_def MustFromNano_def
        split: if_splits option.splits find_result.splits sum.splits prod.splits
        dest: deleteCondition_keeps)
next
  case UnknownAction
  with assms show ?thesis by simp
qed

lemma signOurState_effect:
  assumes "signOurState w ch1 = (ch2, Inr u)"
  shows "Seqno (Data (State (Our ch2))) = Seqno (Data (State (Our ch1))) + 1
       \<and> ConditionalsHash (Data (State (Our ch2))) =
           (if Conditionals (Our ch2) = [] then replicate 32 0
            else DictHash w (Conditionals (Our ch2)))
       \<and> (\<exists>cl. SemiChannelToCell w (State (Our ch2)) = Some cl
              \<and> Signature (Our ch2) = Sign w cl (nodeKey w))
       \<and> ourSent ch2 = ourSent ch1"
  using assms
  by (auto simp: signOurState_def Let_def setOurData_def ourSent_def IsEmpty_def zeroHash_def
      split: option.splits)

lemma switch_flag_idempotent:
  "switchAction w ch a = (ch1, Inr True) \<Longrightarrow> idempotentCase w ch a \<and> ch1 = ch"
  by (cases a)
    (auto simp: idempotentCase_def openVirtual_def commitVirtual_def removeVirtual_def
      confirmClose_def deleteCondition_def Let_def
      split: option.splits find_result.splits if_splits sum.splits prod.splits)

text \<open>
  C1. Whenever \<open>updateOurStateWithAction\<close> succeeds on an action that is not idempotent
  (not a re-opening of a present condition with the same content, not a commit of the
  stored prepay, not a removal or close of an absent key), the channel afterwards has our
  sequence number one higher (as \<open>uint64\<close>), our conditionals hash equal to the hash of
  the conditionals dictionary, or to 32 zero bytes when the dictionary is empty, our
  signature equal to the signature of the serialised new state under the key of the node,
  and our sent amount raised by \<open>max(0, amount - prepay + fee)\<close> for \<open>ConfirmClose\<close>,
  by the difference of the new and the old prepay for \<open>CommitVirtual\<close>, and by 0 for
  every other action.
\<close>

theorem updateOurState_non_idempotent_post:
  assumes "updateOurStateWithAction w channel action = (channel', Inr out)"
      and "\<not> idempotentCase w channel action"
  shows "Seqno (Data (State (Our channel'))) = Seqno (Data (State (Our channel))) + 1
       \<and> ConditionalsHash (Data (State (Our channel'))) =
           (if Conditionals (Our channel') = [] then replicate 32 0
            else DictHash w (Conditionals (Our channel')))
       \<and> (\<exists>cl. SemiChannelToCell w (State (Our channel')) = Some cl
              \<and> Signature (Our channel') = Sign w cl (nodeKey w))
       \<and> ourSent channel' = ourSent channel + deltaSent w channel action"
proof -
  from assms(1) obtain ch1 i where sw0: "switchAction w channel action = (ch1, Inr i)"
    by (auto simp: updateOurStateWithAction_def split: option.splits prod.splits sum.splits)
  with assms(2) switch_flag_idempotent [of w channel action ch1] have "\<not> i" by auto
  with sw0 have sw: "switchAction w channel action = (ch1, Inr False)" by simp
  from assms(1) sw obtain u where sg: "signOurState w ch1 = (channel', Inr u)"
    by (auto simp: updateOurStateWithAction_def split: option.splits prod.splits sum.splits)
  from switchAction_effect [OF sw] signOurState_effect [OF sg] show ?thesis
    by simp
qed

theorem updateOurState_non_idempotent_post_witness:
  "\<not> idempotentCase exampleWorld (openChannel 2000) (closeAction)
   \<and> succeeded (updateOurStateWithAction exampleWorld (openChannel 2000) (closeAction))
   \<and> Seqno (Data (State (Our (fst (updateOurStateWithAction exampleWorld (openChannel 2000) (closeAction)))))) = 8
   \<and> ourSent (fst (updateOurStateWithAction exampleWorld (openChannel 2000) (closeAction))) = 36
   \<and> \<not> idempotentCase exampleWorld (openChannel 2000) (commitAction)
   \<and> succeeded (updateOurStateWithAction exampleWorld (openChannel 2000) (commitAction))
   \<and> Seqno (Data (State (Our (fst (updateOurStateWithAction exampleWorld (openChannel 2000) (commitAction)))))) = 8
   \<and> ourSent (fst (updateOurStateWithAction exampleWorld (openChannel 2000) (commitAction))) = 25
   \<and> \<not> idempotentCase exampleWorld (openChannel 2000) (IncrementStatesAction)
   \<and> succeeded (updateOurStateWithAction exampleWorld (openChannel 2000) (IncrementStatesAction))
   \<and> Seqno (Data (State (Our (fst (updateOurStateWithAction exampleWorld (openChannel 2000) (IncrementStatesAction)))))) = 8
   \<and> ourSent (fst (updateOurStateWithAction exampleWorld (openChannel 2000) (IncrementStatesAction))) = 5
   \<and> \<not> idempotentCase exampleWorld (exampleChannel [] 0 0) (OpenVirtualAction (exampleCond 2000))
   \<and> succeeded (updateOurStateWithAction exampleWorld (exampleChannel [] 0 0) (OpenVirtualAction (exampleCond 2000)))
   \<and> Seqno (Data (State (Our (fst (updateOurStateWithAction exampleWorld (exampleChannel [] 0 0) (OpenVirtualAction (exampleCond 2000))))))) = 8
   \<and> ourSent (fst (updateOurStateWithAction exampleWorld (exampleChannel [] 0 0) (OpenVirtualAction (exampleCond 2000)))) = 5
   \<and> \<not> idempotentCase exampleWorld (openChannel 2000) (RemoveVirtualAction exampleKey)
   \<and> succeeded (updateOurStateWithAction exampleWorld (openChannel 2000) (RemoveVirtualAction exampleKey))
   \<and> Seqno (Data (State (Our (fst (updateOurStateWithAction exampleWorld (openChannel 2000) (RemoveVirtualAction exampleKey)))))) = 8
   \<and> ourSent (fst (updateOurStateWithAction exampleWorld (openChannel 2000) (RemoveVirtualAction exampleKey))) = 5"
proof -
  have closeW: "\<not> idempotentCase exampleWorld (openChannel 2000) (closeAction)
        \<and> succeeded (updateOurStateWithAction exampleWorld (openChannel 2000) (closeAction))
        \<and> Seqno (Data (State (Our (fst (updateOurStateWithAction exampleWorld (openChannel 2000) (closeAction)))))) = 8
        \<and> ourSent (fst (updateOurStateWithAction exampleWorld (openChannel 2000) (closeAction))) = 36"
  proof -
    have ni: "\<not> idempotentCase exampleWorld (openChannel 2000) (closeAction)"
      by (simp add: idempotentCase_def commitAction_def example_defs model_defs)
    have "\<exists>ch' out. updateOurStateWithAction exampleWorld (openChannel 2000) (closeAction) = (ch', Inr out)"
      by (simp add: commitAction_def example_defs model_defs Let_def
          SignedSemiChannel.truncate_def)
    then obtain ch' out where up: "updateOurStateWithAction exampleWorld (openChannel 2000) (closeAction) = (ch', Inr out)"
      by blast
    have d: "ourSent (openChannel 2000) + deltaSent exampleWorld (openChannel 2000) (closeAction) = 36"
      by (simp add: deltaSent_def commitAction_def example_defs model_defs)
    have s0: "Seqno (Data (State (Our (openChannel 2000)))) = 7"
      by (simp add: example_defs model_defs)
    from updateOurState_non_idempotent_post [OF up ni] ni up d s0 show ?thesis
      by (simp add: succeeded_def)
  qed
  have commitW: "\<not> idempotentCase exampleWorld (openChannel 2000) (commitAction)
        \<and> succeeded (updateOurStateWithAction exampleWorld (openChannel 2000) (commitAction))
        \<and> Seqno (Data (State (Our (fst (updateOurStateWithAction exampleWorld (openChannel 2000) (commitAction)))))) = 8
        \<and> ourSent (fst (updateOurStateWithAction exampleWorld (openChannel 2000) (commitAction))) = 25"
  proof -
    have ni: "\<not> idempotentCase exampleWorld (openChannel 2000) (commitAction)"
      by (simp add: idempotentCase_def commitAction_def example_defs model_defs)
    have "\<exists>ch' out. updateOurStateWithAction exampleWorld (openChannel 2000) (commitAction) = (ch', Inr out)"
      by (simp add: commitAction_def example_defs model_defs Let_def
          SignedSemiChannel.truncate_def)
    then obtain ch' out where up: "updateOurStateWithAction exampleWorld (openChannel 2000) (commitAction) = (ch', Inr out)"
      by blast
    have d: "ourSent (openChannel 2000) + deltaSent exampleWorld (openChannel 2000) (commitAction) = 25"
      by (simp add: deltaSent_def commitAction_def example_defs model_defs)
    have s0: "Seqno (Data (State (Our (openChannel 2000)))) = 7"
      by (simp add: example_defs model_defs)
    from updateOurState_non_idempotent_post [OF up ni] ni up d s0 show ?thesis
      by (simp add: succeeded_def)
  qed
  have incW: "\<not> idempotentCase exampleWorld (openChannel 2000) (IncrementStatesAction)
        \<and> succeeded (updateOurStateWithAction exampleWorld (openChannel 2000) (IncrementStatesAction))
        \<and> Seqno (Data (State (Our (fst (updateOurStateWithAction exampleWorld (openChannel 2000) (IncrementStatesAction)))))) = 8
        \<and> ourSent (fst (updateOurStateWithAction exampleWorld (openChannel 2000) (IncrementStatesAction))) = 5"
  proof -
    have ni: "\<not> idempotentCase exampleWorld (openChannel 2000) (IncrementStatesAction)"
      by (simp add: idempotentCase_def commitAction_def example_defs model_defs)
    have "\<exists>ch' out. updateOurStateWithAction exampleWorld (openChannel 2000) (IncrementStatesAction) = (ch', Inr out)"
      by (simp add: commitAction_def example_defs model_defs Let_def
          SignedSemiChannel.truncate_def)
    then obtain ch' out where up: "updateOurStateWithAction exampleWorld (openChannel 2000) (IncrementStatesAction) = (ch', Inr out)"
      by blast
    have d: "ourSent (openChannel 2000) + deltaSent exampleWorld (openChannel 2000) (IncrementStatesAction) = 5"
      by (simp add: deltaSent_def commitAction_def example_defs model_defs)
    have s0: "Seqno (Data (State (Our (openChannel 2000)))) = 7"
      by (simp add: example_defs model_defs)
    from updateOurState_non_idempotent_post [OF up ni] ni up d s0 show ?thesis
      by (simp add: succeeded_def)
  qed
  have openW: "\<not> idempotentCase exampleWorld (exampleChannel [] 0 0) (OpenVirtualAction (exampleCond 2000))
        \<and> succeeded (updateOurStateWithAction exampleWorld (exampleChannel [] 0 0) (OpenVirtualAction (exampleCond 2000)))
        \<and> Seqno (Data (State (Our (fst (updateOurStateWithAction exampleWorld (exampleChannel [] 0 0) (OpenVirtualAction (exampleCond 2000))))))) = 8
        \<and> ourSent (fst (updateOurStateWithAction exampleWorld (exampleChannel [] 0 0) (OpenVirtualAction (exampleCond 2000)))) = 5"
  proof -
    have ni: "\<not> idempotentCase exampleWorld (exampleChannel [] 0 0) (OpenVirtualAction (exampleCond 2000))"
      by (simp add: idempotentCase_def commitAction_def example_defs model_defs)
    have "\<exists>ch' out. updateOurStateWithAction exampleWorld (exampleChannel [] 0 0) (OpenVirtualAction (exampleCond 2000)) = (ch', Inr out)"
      by (simp add: commitAction_def example_defs model_defs Let_def
          SignedSemiChannel.truncate_def)
    then obtain ch' out where up: "updateOurStateWithAction exampleWorld (exampleChannel [] 0 0) (OpenVirtualAction (exampleCond 2000)) = (ch', Inr out)"
      by blast
    have d: "ourSent (exampleChannel [] 0 0) + deltaSent exampleWorld (exampleChannel [] 0 0) (OpenVirtualAction (exampleCond 2000)) = 5"
      by (simp add: deltaSent_def commitAction_def example_defs model_defs)
    have s0: "Seqno (Data (State (Our (exampleChannel [] 0 0)))) = 7"
      by (simp add: example_defs model_defs)
    from updateOurState_non_idempotent_post [OF up ni] ni up d s0 show ?thesis
      by (simp add: succeeded_def)
  qed
  have remW: "\<not> idempotentCase exampleWorld (openChannel 2000) (RemoveVirtualAction exampleKey)
        \<and> succeeded (updateOurStateWithAction exampleWorld (openChannel 2000) (RemoveVirtualAction exampleKey))
        \<and> Seqno (Data (State (Our (fst (updateOurStateWithAction exampleWorld (openChannel 2000) (RemoveVirtualAction exampleKey)))))) = 8
        \<and> ourSent (fst (updateOurStateWithAction exampleWorld (openChannel 2000) (RemoveVirtualAction exampleKey))) = 5"
  proof -
    have ni: "\<not> idempotentCase exampleWorld (openChannel 2000) (RemoveVirtualAction exampleKey)"
      by (simp add: idempotentCase_def commitAction_def example_defs model_defs)
    have "\<exists>ch' out. updateOurStateWithAction exampleWorld (openChannel 2000) (RemoveVirtualAction exampleKey) = (ch', Inr out)"
      by (simp add: commitAction_def example_defs model_defs Let_def
          SignedSemiChannel.truncate_def)
    then obtain ch' out where up: "updateOurStateWithAction exampleWorld (openChannel 2000) (RemoveVirtualAction exampleKey) = (ch', Inr out)"
      by blast
    have d: "ourSent (openChannel 2000) + deltaSent exampleWorld (openChannel 2000) (RemoveVirtualAction exampleKey) = 5"
      by (simp add: deltaSent_def commitAction_def example_defs model_defs)
    have s0: "Seqno (Data (State (Our (openChannel 2000)))) = 7"
      by (simp add: example_defs model_defs)
    from updateOurState_non_idempotent_post [OF up ni] ni up d s0 show ?thesis
      by (simp add: succeeded_def)
  qed
  from closeW commitW incW openW remW show ?thesis by blast
qed

subsection \<open>ConfirmClose: deadline and signature\<close>

text \<open>
  C6. \<open>ConfirmCloseAction\<close> returns an error and leaves the channel as it was (nothing
  deleted, nothing credited) when the state of the action does not load or its signature
  does not verify against the key, and when the condition found for the key has a deadline
  before the clock. Hence a \<open>ConfirmCloseAction\<close> that succeeds on a present condition
  does so with \<open>now \<le> deadline\<close>.
\<close>

theorem confirmClose_deadline_and_signature:
  "((LoadVirtualChannelState w st = None
      \<or> (\<exists>vs. LoadVirtualChannelState w st = Some vs \<and> \<not> Verify w vs key))
     \<longrightarrow> (\<exists>e. updateOurStateWithAction w ch (ConfirmCloseAction key st) = (ch, Inl e)))
   \<and> (FindVirtualChannelWithProof w (Conditionals (Our ch)) key = Found idx vch
        \<and> Deadline vch < nowUnix w
     \<longrightarrow> (\<exists>e. updateOurStateWithAction w ch (ConfirmCloseAction key st) = (ch, Inl e)))
   \<and> (updateOurStateWithAction w ch (ConfirmCloseAction key st) = (ch', Inr out)
        \<and> FindVirtualChannelWithProof w (Conditionals (Our ch)) key = Found idx vch
     \<longrightarrow> nowUnix w \<le> Deadline vch)"
  by (auto simp: updateOurStateWithAction_def confirmClose_def
      split: option.splits prod.splits sum.splits if_splits)

theorem confirmClose_deadline_and_signature_witness:
  "updateOurStateWithAction exampleWorld (openChannel 2000) badSigAction
     = (openChannel 2000, Inl ErrIncorrectSignature)
   \<and> updateOurStateWithAction exampleWorld (openChannel 900) closeAction
     = (openChannel 900, Inl ErrVirtualExpired)
   \<and> succeeded (updateOurStateWithAction exampleWorld (openChannel 1000) closeAction)
   \<and> nowUnix exampleWorld \<le> Deadline (exampleCond 1000)"
proof -
  have a: "\<exists>vs. LoadVirtualChannelState exampleWorld
                  (ResolveCell \<lparr>Amount = 30, StateSignature = [0]\<rparr>) = Some vs
             \<and> \<not> Verify exampleWorld vs exampleKey"
    by (simp add: example_defs)
  have b: "FindVirtualChannelWithProof exampleWorld (Conditionals (Our (openChannel 900)))
             exampleKey = Found 1 (exampleCond 900)
           \<and> Deadline (exampleCond 900) < nowUnix exampleWorld"
    by (simp add: example_defs model_defs)
  have c: "\<exists>ch' out. updateOurStateWithAction exampleWorld (openChannel 1000) closeAction
             = (ch', Inr out)"
    by (simp add: example_defs model_defs Let_def SignedSemiChannel.truncate_def)
  then obtain ch' out where c':
    "updateOurStateWithAction exampleWorld (openChannel 1000) closeAction = (ch', Inr out)"
    by blast
  have d: "FindVirtualChannelWithProof exampleWorld (Conditionals (Our (openChannel 1000)))
             exampleKey = Found 1 (exampleCond 1000)"
    by (simp add: example_defs model_defs)
  have e1: "\<exists>e. updateOurStateWithAction exampleWorld (openChannel 2000) badSigAction
             = (openChannel 2000, Inl e)"
    using a confirmClose_deadline_and_signature
      [of exampleWorld "ResolveCell \<lparr>Amount = 30, StateSignature = [0]\<rparr>" exampleKey
          "openChannel 2000"]
    unfolding badSigAction_def by blast
  have e2: "\<exists>e. updateOurStateWithAction exampleWorld (openChannel 900) closeAction
             = (openChannel 900, Inl e)"
    using b confirmClose_deadline_and_signature
      [of exampleWorld "ResolveCell \<lparr>Amount = 30, StateSignature = exampleKey\<rparr>" exampleKey
          "openChannel 900" 1 "exampleCond 900"]
    unfolding closeAction_def by blast
  have e3: "nowUnix exampleWorld \<le> Deadline (exampleCond 1000)"
    using c' d confirmClose_deadline_and_signature
      [of exampleWorld "ResolveCell \<lparr>Amount = 30, StateSignature = exampleKey\<rparr>" exampleKey
          "openChannel 1000" 1 "exampleCond 1000" ch' out]
    unfolding closeAction_def by blast
  have v1: "snd (updateOurStateWithAction exampleWorld (openChannel 2000) badSigAction)
              = Inl ErrIncorrectSignature"
    by (simp add: example_defs model_defs)
  have v2: "snd (updateOurStateWithAction exampleWorld (openChannel 900) closeAction)
              = Inl ErrVirtualExpired"
    by (simp add: example_defs model_defs)
  from e1 v1 have r1: "updateOurStateWithAction exampleWorld (openChannel 2000) badSigAction
     = (openChannel 2000, Inl ErrIncorrectSignature)" by auto
  from e2 v2 have r2: "updateOurStateWithAction exampleWorld (openChannel 900) closeAction
     = (openChannel 900, Inl ErrVirtualExpired)" by auto
  from c' have r3: "succeeded (updateOurStateWithAction exampleWorld (openChannel 1000)
     closeAction)" by (simp add: succeeded_def)
  from r1 r2 r3 e3 show ?thesis by blast
qed

subsection \<open>AddKnownResolve\<close>

lemmas resolve_defs =
  exampleMeta_def exampleResolve_def exampleWorld_def exampleKey_def exampleToBOC_def
  exampleFromBOC_def

text \<open>
  C5, as amended. \<open>AddKnownResolve\<close> returns an error and leaves the record unchanged
  when the signature of the new resolve does not verify against the key; it returns
  \<open>ErrNewerStateIsKnown\<close> and leaves the record unchanged when the stored resolve has a
  greater amount; otherwise (nothing stored, or a stored amount not above the new one) it
  stores the new resolve. Consequently, when the codec round-trips the new resolve, the
  amount of the known resolve never decreases across a call. The amount is not bounded by
  any capacity: the function does not read one.
\<close>

theorem AddKnownResolve_monotonic:
  "(\<not> Verify w state (MetaKey ch)
      \<longrightarrow> AddKnownResolve w ch state = (Some ErrIncorrectSignature, ch))
   \<and> (Verify w state (MetaKey ch) \<and> LastKnownResolve ch = Some boc \<and> FromBOC w boc = Some cl
        \<and> LoadVirtualChannelState w cl = Some oldState \<and> Amount oldState > Amount state
      \<longrightarrow> AddKnownResolve w ch state = (Some ErrNewerStateIsKnown, ch))
   \<and> (Verify w state (MetaKey ch) \<and> StateToCell w state = Some new
        \<and> (LastKnownResolve ch = None
            \<or> (LastKnownResolve ch = Some boc \<and> FromBOC w boc = Some cl
                \<and> LoadVirtualChannelState w cl = Some oldState
                \<and> Amount oldState \<le> Amount state))
      \<longrightarrow> AddKnownResolve w ch state = (None, ch\<lparr>LastKnownResolve := Some (ToBOC w new)\<rparr>))
   \<and> (AddKnownResolve w ch state = (err, ch') \<and> GetKnownResolve w ch = Some known
        \<and> (\<forall>c. StateToCell w state = Some c
              \<longrightarrow> FromBOC w (ToBOC w c) = Some c \<and> LoadVirtualChannelState w c = Some state)
      \<longrightarrow> (\<exists>known'. GetKnownResolve w ch' = Some known' \<and> Amount known \<le> Amount known'
              \<and> (err = None \<longrightarrow> known' = state)
              \<and> (err \<noteq> None \<longrightarrow> ch' = ch)))"
  by (auto simp: AddKnownResolve_def storeResolve_def GetKnownResolve_def
      split: option.splits if_splits)

theorem AddKnownResolve_monotonic_witness:
  "AddKnownResolve exampleWorld (exampleMeta None) \<lparr>Amount = 10, StateSignature = [0]\<rparr>
     = (Some ErrIncorrectSignature, exampleMeta None)
   \<and> AddKnownResolve exampleWorld (exampleMeta (Some (10 # exampleKey))) (exampleResolve 8)
     = (Some ErrNewerStateIsKnown, exampleMeta (Some (10 # exampleKey)))
   \<and> AddKnownResolve exampleWorld (exampleMeta (Some (10 # exampleKey))) (exampleResolve 15)
     = (None, exampleMeta (Some (15 # exampleKey)))
   \<and> GetKnownResolve exampleWorld (exampleMeta (Some (10 # exampleKey))) = Some (exampleResolve 10)
   \<and> GetKnownResolve exampleWorld (exampleMeta (Some (15 # exampleKey))) = Some (exampleResolve 15)"
proof -
  have v0: "\<not> Verify exampleWorld \<lparr>Amount = 10, StateSignature = [0]\<rparr> (MetaKey (exampleMeta None))"
    by (simp add: resolve_defs)
  have r1: "AddKnownResolve exampleWorld (exampleMeta None) \<lparr>Amount = 10, StateSignature = [0]\<rparr>
     = (Some ErrIncorrectSignature, exampleMeta None)"
    using v0 AddKnownResolve_monotonic
      [of exampleWorld "\<lparr>Amount = 10, StateSignature = [0]\<rparr>" "exampleMeta None"]
    by blast
  have h2: "Verify exampleWorld (exampleResolve 8) (MetaKey (exampleMeta (Some (10 # exampleKey))))
      \<and> LastKnownResolve (exampleMeta (Some (10 # exampleKey))) = Some (10 # exampleKey)
      \<and> FromBOC exampleWorld (10 # exampleKey) = Some (ResolveCell (exampleResolve 10))
      \<and> LoadVirtualChannelState exampleWorld (ResolveCell (exampleResolve 10)) = Some (exampleResolve 10)
      \<and> Amount (exampleResolve 10) > Amount (exampleResolve 8)"
    by (simp add: resolve_defs)
  have r2: "AddKnownResolve exampleWorld (exampleMeta (Some (10 # exampleKey))) (exampleResolve 8)
     = (Some ErrNewerStateIsKnown, exampleMeta (Some (10 # exampleKey)))"
    using h2 AddKnownResolve_monotonic
      [of exampleWorld "exampleResolve 8" "exampleMeta (Some (10 # exampleKey))"
          "10 # exampleKey" "ResolveCell (exampleResolve 10)" "exampleResolve 10"]
    by blast
  have h3: "Verify exampleWorld (exampleResolve 15) (MetaKey (exampleMeta (Some (10 # exampleKey))))
      \<and> StateToCell exampleWorld (exampleResolve 15) = Some (ResolveCell (exampleResolve 15))
      \<and> LastKnownResolve (exampleMeta (Some (10 # exampleKey))) = Some (10 # exampleKey)
      \<and> FromBOC exampleWorld (10 # exampleKey) = Some (ResolveCell (exampleResolve 10))
      \<and> LoadVirtualChannelState exampleWorld (ResolveCell (exampleResolve 10)) = Some (exampleResolve 10)
      \<and> Amount (exampleResolve 10) \<le> Amount (exampleResolve 15)"
    by (simp add: resolve_defs)
  have r3': "AddKnownResolve exampleWorld (exampleMeta (Some (10 # exampleKey))) (exampleResolve 15)
     = (None, (exampleMeta (Some (10 # exampleKey)))
          \<lparr>LastKnownResolve := Some (ToBOC exampleWorld (ResolveCell (exampleResolve 15)))\<rparr>)"
    using h3 AddKnownResolve_monotonic
      [of exampleWorld "exampleResolve 15" "exampleMeta (Some (10 # exampleKey))"
          "10 # exampleKey" "ResolveCell (exampleResolve 10)" "exampleResolve 10"
          "ResolveCell (exampleResolve 15)"]
    by blast
  have r3: "AddKnownResolve exampleWorld (exampleMeta (Some (10 # exampleKey))) (exampleResolve 15)
     = (None, exampleMeta (Some (15 # exampleKey)))"
    using r3' by (simp add: resolve_defs)
  have g1: "GetKnownResolve exampleWorld (exampleMeta (Some (10 # exampleKey))) = Some (exampleResolve 10)"
    by (simp add: GetKnownResolve_def resolve_defs)
  have rt: "\<forall>c. StateToCell exampleWorld (exampleResolve 15) = Some c
              \<longrightarrow> FromBOC exampleWorld (ToBOC exampleWorld c) = Some c
                \<and> LoadVirtualChannelState exampleWorld c = Some (exampleResolve 15)"
    by (auto simp add: resolve_defs)
  have "\<exists>known'. GetKnownResolve exampleWorld (exampleMeta (Some (15 # exampleKey))) = Some known'
          \<and> Amount (exampleResolve 10) \<le> Amount known' \<and> known' = exampleResolve 15"
    using r3 g1 rt AddKnownResolve_monotonic
      [of exampleWorld "exampleResolve 15" "exampleMeta (Some (10 # exampleKey))" _ _ _ _
          None "exampleMeta (Some (15 # exampleKey))" "exampleResolve 10"]
    by blast
  then have g2: "GetKnownResolve exampleWorld (exampleMeta (Some (15 # exampleKey))) = Some (exampleResolve 15)"
    by blast
  from r1 r2 r3 g1 g2 show ?thesis by blast
qed

text \<open>
  C5 as stated fails in its last part: a verified resolve of amount 200 is stored for the
  key of a condition whose capacity is 50.
\<close>

theorem AddKnownResolve_capacity_counterexample:
  "GetKnownResolve exampleWorld (snd (AddKnownResolve exampleWorld (exampleMeta None) (exampleResolve 200)))
     = Some (exampleResolve 200)
   \<and> fst (AddKnownResolve exampleWorld (exampleMeta None) (exampleResolve 200)) = None
   \<and> Key (exampleCond 2000) = MetaKey (exampleMeta None)
   \<and> Capacity (exampleCond 2000) < Amount (exampleResolve 200)"
  by (simp add: AddKnownResolve_def storeResolve_def GetKnownResolve_def exampleMeta_def
      exampleResolve_def exampleWorld_def exampleKey_def exampleCond_def exampleToBOC_def
      exampleFromBOC_def)

subsection \<open>updateOurStateWithAction: idempotent actions\<close>











subsection \<open>updateOurStateWithAction: rejection of OpenVirtual\<close>

lemma calcLoop_total:
  "\<forall>(k, v) \<in> set d. parse v \<noteq> None \<Longrightarrow> \<exists>r. calcLoop parse d b l = Inr r"
  by (induction d arbitrary: b l) (auto split: option.splits)

lemma update_parse:
  "\<forall>(k, v) \<in> set d. P v \<Longrightarrow> P v' \<Longrightarrow> \<forall>(k, v) \<in> set (AList.update k' v' d). P v"
  by (induction d) (auto)

lemma CalcBalance_total:
  "conditionsParse w (Conditionals (Our ch)) \<Longrightarrow> \<exists>r. CalcBalance w ch False = Inr r"
  using calcLoop_total [of "Conditionals (Our ch)" "ParseVirtualChannelCond w"]
  by (auto simp: CalcBalance_def conditionsParse_def Let_def)

lemma serialize_total:
  assumes "serialisationTotal w"
  shows "\<exists>out. serializeResult w ch1 = Inr out"
proof -
  from assms obtain res where r: "SignedToCell w (SignedSemiChannel.truncate (Our ch1)) = Some res"
    unfolding serialisationTotal_def by (meson not_None_eq)
  from assms obtain p where p: "CreateProof w (Conditionals (Our ch1)) = Some p"
    unfolding serialisationTotal_def by (meson not_None_eq)
  from r p show ?thesis by (simp add: serializeResult_def)
qed

lemma signed_result:
  assumes "serialisationTotal w"
  shows "\<exists>ch2 out. signOurState w ch1 = (ch2, Inr ()) \<and> serializeResult w ch2 = Inr out"
proof -
  have "\<exists>ch2. signOurState w ch1 = (ch2, Inr ())"
  proof (cases "IsEmpty (Conditionals (Our ch1))")
    case True
    let ?c = "setOurData ((Data (State (Our ch1)))\<lparr>Seqno := Seqno (Data (State (Our ch1))) + 1,
                ConditionalsHash := zeroHash\<rparr>) ch1"
    from assms obtain cl where "SemiChannelToCell w (State (Our ?c)) = Some cl"
      unfolding serialisationTotal_def by (meson not_None_eq)
    with True show ?thesis by (simp add: signOurState_def Let_def)
  next
    case False
    let ?c = "setOurData ((Data (State (Our ch1)))\<lparr>Seqno := Seqno (Data (State (Our ch1))) + 1,
                ConditionalsHash := DictHash w (Conditionals (Our ch1))\<rparr>) ch1"
    from assms obtain cl where "SemiChannelToCell w (State (Our ?c)) = Some cl"
      unfolding serialisationTotal_def by (meson not_None_eq)
    with False show ?thesis by (simp add: signOurState_def Let_def)
  qed
  then obtain ch2 where "signOurState w ch1 = (ch2, Inr ())" by blast
  with serialize_total [OF assms, of ch2] show ?thesis by blast
qed

lemma update_after_switch:
  assumes "coinConfigResolves w ch" "serialisationTotal w" "switchAction w ch a = (ch1, Inr i)"
  shows "succeeded (updateOurStateWithAction w ch a)"
proof (cases i)
  case True
  with assms serialize_total [OF assms(2), of ch1] show ?thesis
    by (auto simp: updateOurStateWithAction_def coinConfigResolves_def succeeded_def
        split: option.splits)
next
  case False
  with assms signed_result [OF assms(2), of ch1] show ?thesis
    by (auto simp: updateOurStateWithAction_def coinConfigResolves_def succeeded_def
        split: option.splits)
qed

lemma open_error_iff:
  assumes "4 \<le> length (Key vch)"
  shows "(\<exists>ch1 e. openVirtual w ch vch = (ch1, Inl e) \<and> e \<in> validationErrors)
           = openRejected w ch vch"
  using assms
  by (auto simp: openVirtual_def openRejected_def validationErrors_def Let_def
      LittleEndian_Uint32_def split: option.splits sum.splits prod.splits if_splits)

lemma open_flag:
  assumes "4 \<le> length (Key vch)" "\<not> openRejected w ch vch"
    "conditionsParse w (Conditionals (Our ch))" "ParseVirtualChannelCond w (Serialize w vch) \<noteq> None"
  shows "\<exists>ch1 i. openVirtual w ch vch = (ch1, Inr i)"
proof -
  obtain key where k: "LittleEndian_Uint32 (Key vch) = Some key"
    using assms(1) by (auto simp: LittleEndian_Uint32_def)
  show ?thesis
  proof (cases "LoadValue (Conditionals (Our ch)) key")
    case (Some sl)
    with assms k show ?thesis
      by (auto simp: openVirtual_def openRejected_def Let_def)
  next
    case None
    let ?ch1 = "setOurConditionals (SetIntKey key (Serialize w vch) (Conditionals (Our ch))) ch"
    have "conditionsParse w (Conditionals (Our ?ch1))"
      using assms(3,4) update_parse [of "Conditionals (Our ch)" "\<lambda>v. ParseVirtualChannelCond w v \<noteq> None"]
      by (simp add: conditionsParse_def SetIntKey_def)
    from CalcBalance_total [OF this] obtain r where "CalcBalance w ?ch1 False = Inr r" by blast
    with assms k None show ?thesis
      by (cases r) (auto simp: openVirtual_def openRejected_def Let_def)
  qed
qed

text \<open>
  C4, as amended. When the coin configuration resolves and the key has at least four
  bytes, \<open>OpenVirtualAction\<close> ends with one of the errors of its checks exactly when
  capacity \<open>\<le> 0\<close>, fee \<open>< 0\<close>, prepay \<open>< 0\<close>, deadline \<open>< now\<close>, a value with a
  different content hash is stored under the key prefix, or the key prefix is free and the
  balance of our side after the insertion is negative. Otherwise it succeeds, provided
  the stored conditions and the new one parse and the state, the signed state and the
  proof serialise.
\<close>

theorem openVirtual_rejection:
  assumes "coinConfigResolves w ch" and "4 \<le> length (Key vch)"
  shows "((\<exists>e \<in> validationErrors.
             snd (updateOurStateWithAction w ch (OpenVirtualAction vch)) = Inl e)
           = openRejected w ch vch)
       \<and> (\<not> openRejected w ch vch \<and> serialisationTotal w
            \<and> conditionsParse w (Conditionals (Our ch))
            \<and> ParseVirtualChannelCond w (Serialize w vch) \<noteq> None
          \<longrightarrow> succeeded (updateOurStateWithAction w ch (OpenVirtualAction vch)))"
proof -
  have A: "(\<exists>e \<in> validationErrors.
             snd (updateOurStateWithAction w ch (OpenVirtualAction vch)) = Inl e)
           = (\<exists>ch1 e. openVirtual w ch vch = (ch1, Inl e) \<and> e \<in> validationErrors)"
  proof
    assume "\<exists>e \<in> validationErrors.
             snd (updateOurStateWithAction w ch (OpenVirtualAction vch)) = Inl e"
    then show "\<exists>ch1 e. openVirtual w ch vch = (ch1, Inl e) \<and> e \<in> validationErrors"
      using assms(1)
      by (auto simp: updateOurStateWithAction_def coinConfigResolves_def
          signOurState_def serializeResult_def validationErrors_def Let_def
          split: option.splits prod.splits sum.splits if_splits)
  next
    assume "\<exists>ch1 e. openVirtual w ch vch = (ch1, Inl e) \<and> e \<in> validationErrors"
    then show "\<exists>e \<in> validationErrors.
             snd (updateOurStateWithAction w ch (OpenVirtualAction vch)) = Inl e"
      using assms(1)
      by (auto simp: updateOurStateWithAction_def coinConfigResolves_def
          split: option.splits)
  qed
  have B: "succeeded (updateOurStateWithAction w ch (OpenVirtualAction vch))"
    if "\<not> openRejected w ch vch" "serialisationTotal w"
       "conditionsParse w (Conditionals (Our ch))"
       "ParseVirtualChannelCond w (Serialize w vch) \<noteq> None"
  proof -
    from open_flag [OF assms(2) that(1,3,4)] obtain ch1 i
      where "switchAction w ch (OpenVirtualAction vch) = (ch1, Inr i)" by auto
    from update_after_switch [OF assms(1) that(2) this] show ?thesis .
  qed
  from A B open_error_iff [OF assms(2), of w ch] show ?thesis by blast
qed

theorem openVirtual_rejection_witness:
  "openRejected exampleWorld (openChannel 2000) (exampleCond 900)
   \<and> snd (updateOurStateWithAction exampleWorld (openChannel 2000)
        (OpenVirtualAction (exampleCond 900))) = Inl ErrDeadlineExpired
   \<and> \<not> openRejected exampleWorld (exampleChannel [] 0 0) (exampleCond 2000)
   \<and> succeeded (updateOurStateWithAction exampleWorld (exampleChannel [] 0 0)
        (OpenVirtualAction (exampleCond 2000)))"
proof -
  have c1: "coinConfigResolves exampleWorld (openChannel 2000)"
    and c2: "coinConfigResolves exampleWorld (exampleChannel [] 0 0)"
    by (simp_all add: coinConfigResolves_def example_defs)
  have k1: "4 \<le> length (Key (exampleCond 900))" and k2: "4 \<le> length (Key (exampleCond 2000))"
    by (simp_all add: example_defs)
  have r: "openRejected exampleWorld (openChannel 2000) (exampleCond 900)"
    by (simp add: openRejected_def example_defs)
  have n: "\<not> openRejected exampleWorld (exampleChannel [] 0 0) (exampleCond 2000)"
    by (simp add: openRejected_def example_defs model_defs)
  have t: "serialisationTotal exampleWorld"
    by (simp add: serialisationTotal_def example_defs)
  have p: "conditionsParse exampleWorld (Conditionals (Our (exampleChannel [] 0 0)))
           \<and> ParseVirtualChannelCond exampleWorld (Serialize exampleWorld (exampleCond 2000)) \<noteq> None"
    by (simp add: conditionsParse_def example_defs)
  have e: "\<exists>e \<in> validationErrors.
             snd (updateOurStateWithAction exampleWorld (openChannel 2000)
               (OpenVirtualAction (exampleCond 900))) = Inl e"
    using r openVirtual_rejection [OF c1 k1] by blast
  have v: "snd (updateOurStateWithAction exampleWorld (openChannel 2000)
        (OpenVirtualAction (exampleCond 900))) = Inl ErrDeadlineExpired"
    by (simp add: example_defs model_defs)
  have s: "succeeded (updateOurStateWithAction exampleWorld (exampleChannel [] 0 0)
        (OpenVirtualAction (exampleCond 2000)))"
    using n t p openVirtual_rejection [OF c2 k2] by blast
  from r v n s show ?thesis by blast
qed

text \<open>
  C4 as stated fails: a deadline equal to the clock is not strictly greater than now, yet
  the action is accepted.
\<close>

theorem openVirtual_deadline_now_counterexample:
  "\<not> nowUnix exampleWorld < Deadline (exampleCond 1000)
   \<and> succeeded (updateOurStateWithAction exampleWorld (exampleChannel [] 0 0)
        (OpenVirtualAction (exampleCond 1000)))"
  by (simp add: succeeded_def example_defs model_defs Let_def SignedSemiChannel.truncate_def)

subsection \<open>Transaction\<close>

text \<open>
  C8. On an open engine and outside a transaction, \<open>Transaction\<close> runs \<open>f\<close> on a
  transaction whose snapshot is the store and whose batch is empty; when \<open>f\<close> returns no
  error the store becomes the old store with the whole batch of \<open>f\<close> written to it, and
  when \<open>f\<close> returns an error the engine is unchanged and that error is returned. Inside
  a transaction of the context, \<open>f\<close> runs directly on that transaction and the engine is
  not touched. Reads (\<open>Get\<close>, \<open>Has\<close>, the iterator) are answered by the snapshot and
  do not see the writes of the batch.
\<close>

theorem Transaction_atomic:
  "(\<not> closed d \<and> f s (freshTx d) = (None, s', tx')
      \<longrightarrow> Transaction d None s f = (None, s', d\<lparr>store := Write (store d) (batch tx')\<rparr>, None))
   \<and> (\<not> closed d \<and> f s (freshTx d) = (Some e, s', tx')
      \<longrightarrow> Transaction d None s f = (Some e, s', d, None))
   \<and> (f s tx = (r, s', tx') \<longrightarrow> Transaction d (Some tx) s f = (r, s', d, Some tx'))
   \<and> Get (Put tx k v) k' = Get tx k' \<and> Get (Delete tx k) k' = Get tx k'
   \<and> Has (Put tx k v) k' = Has tx k' \<and> Has (Delete tx k) k' = Has tx k'
   \<and> NewIterator (Put tx k v) p = NewIterator tx p
   \<and> NewIterator (Delete tx k) p = NewIterator tx p
   \<and> Snapshot (freshTx d) = store d"
  by (auto simp: Transaction_def freshTx_def Get_def Put_def Delete_def Has_def NewIterator_def)

theorem Transaction_atomic_witness:
  "Transaction (exampleDB []) None () putOne = (None, (), exampleDB [([1], [2])], None)
   \<and> Transaction (exampleDB []) None () putThenFail = (Some ErrNotFound, (), exampleDB [], None)
   \<and> Transaction (exampleDB []) (Some (freshTx (exampleDB []))) () putThenFail
       = (Some ErrNotFound, (), exampleDB [], Some (Put (freshTx (exampleDB [])) [1] [2]))"
proof -
  have o: "\<not> closed (exampleDB [])" by (simp add: exampleDB_def)
  have a: "putOne () (freshTx (exampleDB [])) = (None, (), Put (freshTx (exampleDB [])) [1] [2])"
    by (simp add: putOne_def)
  have b: "putThenFail () (freshTx (exampleDB []))
             = (Some ErrNotFound, (), Put (freshTx (exampleDB [])) [1] [2])"
    by (simp add: putThenFail_def)
  have w: "(exampleDB [])\<lparr>store := Write (store (exampleDB []))
             (batch (Put (freshTx (exampleDB [])) [1] [2]))\<rparr> = exampleDB [([1], [2])]"
    by (simp add: exampleDB_def freshTx_def Put_def Write_def)
  from o a w Transaction_atomic [where d = "exampleDB []" and f = putOne and s = "()"
      and s' = "()" and tx' = "Put (freshTx (exampleDB [])) [1] [2]"]
  have 1: "Transaction (exampleDB []) None () putOne = (None, (), exampleDB [([1], [2])], None)"
    by simp
  from o b Transaction_atomic [where d = "exampleDB []" and f = putThenFail and s = "()"
      and s' = "()" and tx' = "Put (freshTx (exampleDB [])) [1] [2]" and e = ErrNotFound]
  have 2: "Transaction (exampleDB []) None () putThenFail = (Some ErrNotFound, (), exampleDB [], None)"
    by blast
  from b Transaction_atomic [where d = "exampleDB []" and f = putThenFail and s = "()"
      and s' = "()" and tx' = "Put (freshTx (exampleDB [])) [1] [2]"
      and tx = "freshTx (exampleDB [])" and r = "Some ErrNotFound"]
  have 3: "Transaction (exampleDB []) (Some (freshTx (exampleDB []))) () putThenFail
       = (Some ErrNotFound, (), exampleDB [], Some (Put (freshTx (exampleDB [])) [1] [2]))"
    by blast
  from 1 2 3 show ?thesis by blast
qed

subsection \<open>CreateTask\<close>

text \<open>
  C9, as amended. When the payload encodes and a value is stored under \<open>tv:\<close> followed by
  the id, \<open>CreateTask\<close> returns no error and writes nothing, whatever the payload, type,
  queue and schedule of the call: on an open engine outside a transaction the engine is
  unchanged, inside a transaction the batch is unchanged. When the payload does not
  encode, \<open>CreateTask\<close> returns the encoding error before it looks at the store.
\<close>

theorem CreateTask_existing_id:
  "(MarshalData j payload = Some bts \<and> \<not> closed d \<and> map_of (store d) (tvPrefix @ id') \<noteq> None
      \<longrightarrow> CreateTask j d None now poolName ty queue id' payload executeAfter executeTill
            = (None, d, None))
   \<and> (MarshalData j payload = Some bts \<and> Has tx (tvPrefix @ id')
      \<longrightarrow> CreateTask j d (Some tx) now poolName ty queue id' payload executeAfter executeTill
            = (None, d, Some tx))
   \<and> (MarshalData j payload = None
      \<longrightarrow> CreateTask j d ctx now poolName ty queue id' payload executeAfter executeTill
            = (Some ErrJSON, d, ctx))"
  by (auto simp: CreateTask_def createTask_def Transaction_def Has_def Let_def Write_def)

theorem CreateTask_existing_id_witness:
  "CreateTask exampleJSON storedTaskDB None 500 [7] [2] [9] [1] (JSONValue [4]) (Some 7) None
       = (None, storedTaskDB, None)
   \<and> CreateTask exampleJSON storedTaskDB (Some (freshTx storedTaskDB)) 500 [7] [2] [9] [1]
         (JSONValue [4]) (Some 7) None
       = (None, storedTaskDB, Some (freshTx storedTaskDB))
   \<and> CreateTask exampleJSON storedTaskDB None 500 [7] [2] [9] [1] Unsupported (Some 7) None
       = (Some ErrJSON, storedTaskDB, None)"
proof -
  have m: "MarshalData exampleJSON (JSONValue [4]) = Some [4]"
    and u: "MarshalData exampleJSON Unsupported = None"
    by (simp_all add: exampleJSON_def)
  have o: "\<not> closed storedTaskDB" by (simp add: storedTaskDB_def exampleDB_def)
  have h: "map_of (store storedTaskDB) (tvPrefix @ [1]) \<noteq> None"
    by (simp add: storedTaskDB_def exampleDB_def)
  have h': "Has (freshTx storedTaskDB) (tvPrefix @ [1])"
    using h by (simp add: Has_def freshTx_def)
  from m u o h h'
    CreateTask_existing_id [where j = exampleJSON and payload = "JSONValue [4]" and bts = "[4]"
      and d = storedTaskDB and id' = "[1]" and now = 500 and poolName = "[7]" and ty = "[2]"
      and queue = "[9]" and executeAfter = "Some 7" and executeTill = None
      and tx = "freshTx storedTaskDB"]
    CreateTask_existing_id [where j = exampleJSON and payload = Unsupported
      and d = storedTaskDB and id' = "[1]" and now = 500 and poolName = "[7]" and ty = "[2]"
      and queue = "[9]" and executeAfter = "Some 7" and executeTill = None and ctx = None]
  show ?thesis by blast
qed

text \<open>
  C9 as stated fails for a payload that \<open>json.Marshal\<close> refuses: the task body exists,
  and the call returns the encoding error instead of success.
\<close>

theorem CreateTask_unmarshalable_counterexample:
  "map_of (store storedTaskDB) (tvPrefix @ [1]) = Some [11]
   \<and> CreateTask exampleJSON storedTaskDB None 500 [7] [2] [3] [1] Unsupported None None
       = (Some ErrJSON, storedTaskDB, None)"
  by (simp add: CreateTask_def exampleJSON_def storedTaskDB_def exampleDB_def)

subsection \<open>RetryTask\<close>

lemma filter_update_other:
  "\<forall>x. \<not> P (k, x) \<Longrightarrow> filter P (AList.update k v m) = filter P m"
  by (induction m) auto

lemma tv_not_ti: "take (length (tiPrefix @ p)) (tvPrefix @ i) \<noteq> tiPrefix @ p"
  by (auto simp: tvPrefix_def tiPrefix_def)

lemma iterator_after_put_tv:
  "NewIterator \<lparr>Snapshot = AList.update (tvPrefix @ i) v m, batch = b\<rparr> (tiPrefix @ p)
     = NewIterator \<lparr>Snapshot = m, batch = b'\<rparr> (tiPrefix @ p)"
proof -
  have "filter (\<lambda>(k, v). take (length (tiPrefix @ p)) k = tiPrefix @ p)
          (AList.update (tvPrefix @ i) v m)
        = filter (\<lambda>(k, v). take (length (tiPrefix @ p)) k = tiPrefix @ p) m"
    by (rule filter_update_other) (use tv_not_ti in auto)
  then show ?thesis by (simp add: NewIterator_def)
qed

text \<open>
  C10. \<open>RetryTask\<close> on a task that is completed or not locked returns no error and
  leaves the task, the engine and the transaction of the context as they were. Otherwise
  the task becomes the retried task (lock cleared, last error and time of the next
  execution set). On an open engine outside a transaction every key other than \<open>tv:\<close>
  followed by the id keeps its value, so every iteration over a \<open>ti:\<close> prefix yields the
  same entries in the same order; when the body is absent the call returns
  \<open>ErrNotFound\<close> with the engine unchanged, and when it is present and the task encodes,
  the call returns no error and the engine is the old one with the body replaced by the
  encoded retried task. Inside a transaction the engine is untouched: a present body and
  an encodable task give no error and exactly one more operation in the batch, the
  \<open>Put\<close> of the encoded retried task under the \<open>tv:\<close> key; an absent body gives
  \<open>ErrNotFound\<close> and an unencodable task the encoding error, both with the batch
  unchanged.
\<close>

theorem RetryTask_frame:
  "(CompletedAt task \<noteq> None \<or> LockedTill task = None
      \<longrightarrow> RetryTask j d ctx task reason retryAt = (None, task, d, ctx))
   \<and> (CompletedAt task = None \<and> LockedTill task \<noteq> None \<and> \<not> closed d
        \<and> RetryTask j d None task reason retryAt = (err, task', d', ctx')
      \<longrightarrow> task' = retried task reason retryAt \<and> ctx' = None \<and> closed d' = closed d
          \<and> (\<forall>k. k \<noteq> tvPrefix @ ID task \<longrightarrow> map_of (store d') k = map_of (store d) k)
          \<and> (\<forall>p. NewIterator (freshTx d') (tiPrefix @ p) = NewIterator (freshTx d) (tiPrefix @ p))
          \<and> (map_of (store d) (tvPrefix @ ID task) = None \<longrightarrow> err = Some ErrNotFound \<and> d' = d)
          \<and> (\<forall>data. map_of (store d) (tvPrefix @ ID task) \<noteq> None
                  \<and> MarshalTask j (retried task reason retryAt) = Some data
                \<longrightarrow> err = None \<and> map_of (store d') (tvPrefix @ ID task) = Some data))
   \<and> (CompletedAt task = None \<and> LockedTill task \<noteq> None
        \<and> RetryTask j d (Some tx) task reason retryAt = (err, task', d', ctx')
      \<longrightarrow> d' = d
          \<and> (ctx' = Some tx
              \<or> (\<exists>data. ctx' = Some (Put tx (tvPrefix @ ID task) data))))
   \<and> (CompletedAt task = None \<and> LockedTill task \<noteq> None \<and> \<not> closed d
        \<and> map_of (store d) (tvPrefix @ ID task) \<noteq> None
        \<and> MarshalTask j (retried task reason retryAt) = Some data
      \<longrightarrow> RetryTask j d None task reason retryAt
            = (None, retried task reason retryAt,
               d\<lparr>store := AList.update (tvPrefix @ ID task) data (store d)\<rparr>, None))
   \<and> (CompletedAt task = None \<and> LockedTill task \<noteq> None
        \<and> Has tx (tvPrefix @ ID task)
        \<and> MarshalTask j (retried task reason retryAt) = Some data
      \<longrightarrow> RetryTask j d (Some tx) task reason retryAt
            = (None, retried task reason retryAt, d, Some (Put tx (tvPrefix @ ID task) data)))
   \<and> (CompletedAt task = None \<and> LockedTill task \<noteq> None \<and> \<not> Has tx (tvPrefix @ ID task)
      \<longrightarrow> RetryTask j d (Some tx) task reason retryAt
            = (Some ErrNotFound, retried task reason retryAt, d, Some tx))
   \<and> (CompletedAt task = None \<and> LockedTill task \<noteq> None \<and> Has tx (tvPrefix @ ID task)
        \<and> MarshalTask j (retried task reason retryAt) = None
      \<longrightarrow> RetryTask j d (Some tx) task reason retryAt
            = (Some (Wrapped ''failed to encode json'' ErrJSON), retried task reason retryAt, d,
               Some tx))"
  by (auto simp: RetryTask_def Transaction_def Let_def Has_def Put_def Write_def retried_def
      freshTx_def AList.update_conv' iterator_after_put_tv split: option.splits if_splits)

theorem RetryTask_frame_witness:
  "RetryTask exampleJSON storedTaskDB None (exampleTask None None None None) [5] 2000
     = (None, exampleTask None None None None, storedTaskDB, None)
   \<and> RetryTask exampleJSON storedTaskDB None lockedTask [5] 2000
     = (None, retried lockedTask [5] 2000, retriedDB, None)
   \<and> map_of (store retriedDB) (tvPrefix @ [1]) = Some [12]
   \<and> NewIterator (freshTx retriedDB) (tiPrefix @ [7] @ colon)
       = NewIterator (freshTx storedTaskDB) (tiPrefix @ [7] @ colon)
   \<and> RetryTask exampleJSON storedTaskDB (Some (freshTx storedTaskDB)) lockedTask [5] 2000
     = (None, retried lockedTask [5] 2000, storedTaskDB,
        Some (Put (freshTx storedTaskDB) (tvPrefix @ [1]) [12]))
   \<and> RetryTask exampleJSON (exampleDB []) (Some (freshTx (exampleDB []))) lockedTask [5] 2000
     = (Some ErrNotFound, retried lockedTask [5] 2000, exampleDB [], Some (freshTx (exampleDB [])))"
proof -
  have u: "LockedTill (exampleTask None None None None) = None"
    by (simp add: exampleTask_def)
  have 1: "RetryTask exampleJSON storedTaskDB None (exampleTask None None None None) [5] 2000
     = (None, exampleTask None None None None, storedTaskDB, None)"
    using u RetryTask_frame [where task = "exampleTask None None None None" and j = exampleJSON
        and d = storedTaskDB and ctx = None and reason = "[5]" and retryAt = 2000]
    by blast
  have h: "CompletedAt lockedTask = None \<and> LockedTill lockedTask \<noteq> None \<and> \<not> closed storedTaskDB"
    by (simp add: lockedTask_def exampleTask_def storedTaskDB_def exampleDB_def)
  have b: "map_of (store storedTaskDB) (tvPrefix @ ID lockedTask) \<noteq> None
           \<and> MarshalTask exampleJSON (retried lockedTask [5] 2000) = Some [12]"
    by (simp add: lockedTask_def exampleTask_def storedTaskDB_def exampleDB_def retried_def
        exampleJSON_def exampleTasks_def)
  have i: "ID lockedTask = [1]" by (simp add: lockedTask_def exampleTask_def)
  have w: "storedTaskDB\<lparr>store := AList.update (tvPrefix @ ID lockedTask) [12] (store storedTaskDB)\<rparr>
             = retriedDB"
    by (simp add: i storedTaskDB_def retriedDB_def exampleDB_def)
  have hs: "Has (freshTx storedTaskDB) (tvPrefix @ ID lockedTask)"
    using b by (simp add: Has_def freshTx_def)
  have hn: "\<not> Has (freshTx (exampleDB [])) (tvPrefix @ ID lockedTask)"
    by (simp add: Has_def freshTx_def exampleDB_def)
  note T = RetryTask_frame [where task = lockedTask and j = exampleJSON and reason = "[5]"
      and retryAt = 2000 and data = "[12]"]
  from h b w T [where d = storedTaskDB]
  have 2: "RetryTask exampleJSON storedTaskDB None lockedTask [5] 2000
     = (None, retried lockedTask [5] 2000, retriedDB, None)"
    by metis
  from h b 2 T [where d = storedTaskDB and err = None
      and task' = "retried lockedTask [5] 2000" and d' = retriedDB and ctx' = None]
  have 3: "map_of (store retriedDB) (tvPrefix @ ID lockedTask) = Some [12]
           \<and> (\<forall>p. NewIterator (freshTx retriedDB) (tiPrefix @ p)
                  = NewIterator (freshTx storedTaskDB) (tiPrefix @ p))"
    by blast
  from h b hs T [where d = storedTaskDB and tx = "freshTx storedTaskDB"]
  have 4: "RetryTask exampleJSON storedTaskDB (Some (freshTx storedTaskDB)) lockedTask [5] 2000
     = (None, retried lockedTask [5] 2000, storedTaskDB,
        Some (Put (freshTx storedTaskDB) (tvPrefix @ ID lockedTask) [12]))"
    by blast
  from h hn T [where d = "exampleDB []" and tx = "freshTx (exampleDB [])"]
  have 5: "RetryTask exampleJSON (exampleDB []) (Some (freshTx (exampleDB []))) lockedTask [5] 2000
     = (Some ErrNotFound, retried lockedTask [5] 2000, exampleDB [], Some (freshTx (exampleDB [])))"
    by blast
  from 1 2 3 4 5 i show ?thesis by simp
qed

subsection \<open>AcquireTask\<close>

lemma expiredReached_Nil [simp]: "expiredReached j now n snap sk [] = {}"
  by (simp add: expiredReached_def)






















end
